theory Spec2Isabelle
  imports Complex_Main "HOL-Library.Char_ord" "HOL-Library.List_Lexorder" "HOL-Library.Multiset"
begin

section \<open>Values, rows and data frames\<close>

text \<open>
  \<^verbatim>\<open>build.py\<close> works on polars data frames read from two CSV files. A cell of a frame is
  null, a 64-bit integer, a 64-bit float or a string. Finite floats are modelled by the
  rational they denote (rounding of the binary format is not modelled), the three special
  floats are values of their own. Strings are the UTF-8 bytes of the text, so the accented
  letters of the column names and result indicators are two bytes each. The dtypes are the
  three of these cells; the Boolean and temporal dtypes that the engine also knows are not
  modelled.
\<close>

datatype pyfloat = Fin rat | PInf | NInf | NaN

datatype cell = Null | IntV int | FloatV pyfloat | StrV string

datatype dtype = Int64 | Float64 | Utf8

datatype error =
    FileNotFoundError
  | ComputeError
  | ColumnNotFoundError string
  | InvalidOperationError
  | KeyError string
  | TypeError
  | ValueError
  | OutOfBoundsError

type_synonym row = "(string \<times> cell) list"

record DataFrame =
  schema :: "(string \<times> dtype) list"
  rows :: "row list"

text \<open>\<^verbatim>\<open>pl.DataFrame()\<close>: no columns and no rows.\<close>

definition empty_frame :: DataFrame where
  "empty_frame = \<lparr>schema = [], rows = []\<rparr>"

definition columns :: "DataFrame \<Rightarrow> string list" where
  "columns df = map fst (schema df)"

definition height :: "DataFrame \<Rightarrow> nat" where
  "height df = length (rows df)"

text \<open>The value of a column in a row, as an expression \<^verbatim>\<open>pl.col(c)\<close> sees it.\<close>

definition col_val :: "row \<Rightarrow> string \<Rightarrow> cell" where
  "col_val r c = (case map_of r c of Some v \<Rightarrow> v | None \<Rightarrow> Null)"

text \<open>\<^verbatim>\<open>row[c]\<close> on a dictionary of \<^verbatim>\<open>iter_rows(named=True)\<close>: a missing key raises.\<close>

definition row_get :: "row \<Rightarrow> string \<Rightarrow> error + cell" where
  "row_get r c = (case map_of r c of Some v \<Rightarrow> Inr v | None \<Rightarrow> Inl (KeyError c))"

text \<open>Sequencing of steps that may raise: the first exception ends the computation.\<close>

definition bindE :: "error + 'a \<Rightarrow> ('a \<Rightarrow> error + 'b) \<Rightarrow> error + 'b" where
  "bindE m f = (case m of Inl e \<Rightarrow> Inl e | Inr x \<Rightarrow> f x)"

fun foldE :: "('a \<Rightarrow> 's \<Rightarrow> error + 's) \<Rightarrow> 'a list \<Rightarrow> 's \<Rightarrow> error + 's" where
  "foldE f [] s = Inr s"
| "foldE f (x # xs) s = bindE (f x s) (foldE f xs)"

subsection \<open>Column names and indicator strings of the source\<close>

definition Victoria :: string where
  "Victoria = ''Vict'' @ [CHR 0xC3, CHR 0xB2] @ ''ria''"

definition Empat :: string where
  "Empat = ''Empat''"

definition Derrota :: string where
  "Derrota = ''Derrota''"

definition Posicio :: string where
  "Posicio = ''Posici'' @ [CHR 0xC3, CHR 0xB3]"

definition Marcador_Local :: string where
  "Marcador_Local = ''Marcador Local''"

definition Marcador_Visitant :: string where
  "Marcador_Visitant = ''Marcador Visitant''"

subsection \<open>Python and polars arithmetic on cells\<close>

text \<open>Float addition: exact on finite values, IEEE rules for the special values.\<close>

fun float_add :: "pyfloat \<Rightarrow> pyfloat \<Rightarrow> pyfloat" where
  "float_add NaN _ = NaN"
| "float_add _ NaN = NaN"
| "float_add PInf NInf = NaN"
| "float_add NInf PInf = NaN"
| "float_add PInf _ = PInf"
| "float_add _ PInf = PInf"
| "float_add NInf _ = NInf"
| "float_add _ NInf = NInf"
| "float_add (Fin a) (Fin b) = Fin (a + b)"

text \<open>Python \<^verbatim>\<open>a + b\<close> on the values a row dictionary can hold.\<close>

fun py_add :: "cell \<Rightarrow> cell \<Rightarrow> error + cell" where
  "py_add (IntV a) (IntV b) = Inr (IntV (a + b))"
| "py_add (IntV a) (FloatV b) = Inr (FloatV (float_add (Fin (of_int a)) b))"
| "py_add (FloatV a) (IntV b) = Inr (FloatV (float_add a (Fin (of_int b))))"
| "py_add (FloatV a) (FloatV b) = Inr (FloatV (float_add a b))"
| "py_add _ _ = Inl TypeError"

text \<open>
  \<^verbatim>\<open>df[c].sum()\<close>: the column must exist and be numeric; nulls are skipped. The sum of an
  integer column is an integer, of a float column a float.
\<close>

fun sum_cells :: "dtype \<Rightarrow> cell list \<Rightarrow> cell" where
  "sum_cells Int64 vs = IntV (sum_list (map (\<lambda>v. case v of IntV i \<Rightarrow> i | _ \<Rightarrow> 0) vs))"
| "sum_cells Float64 vs =
     FloatV (foldl float_add (Fin 0) (map (\<lambda>v. case v of FloatV f \<Rightarrow> f | _ \<Rightarrow> Fin 0) vs))"
| "sum_cells Utf8 vs = Null"

definition series_sum :: "DataFrame \<Rightarrow> string \<Rightarrow> error + cell" where
  "series_sum df c =
     (case map_of (schema df) c of
        None \<Rightarrow> Inl (ColumnNotFoundError c)
      | Some Utf8 \<Rightarrow> Inl InvalidOperationError
      | Some dt \<Rightarrow> Inr (sum_cells dt (map (\<lambda>r. col_val r c) (rows df))))"

text \<open>
  \<^verbatim>\<open>df.filter(pl.col(c) == s)\<close> for a string literal \<^verbatim>\<open>s\<close>: the column must exist and hold
  strings; a null cell compares to null and the row is left out.
\<close>

definition filter_eq_str :: "DataFrame \<Rightarrow> string \<Rightarrow> string \<Rightarrow> error + DataFrame" where
  "filter_eq_str df c s =
     (case map_of (schema df) c of
        None \<Rightarrow> Inl (ColumnNotFoundError c)
      | Some Utf8 \<Rightarrow> Inr (df\<lparr>rows := filter (\<lambda>r. col_val r c = StrV s) (rows df)\<rparr>)
      | Some _ \<Rightarrow> Inl ComputeError)"

section \<open>Season statistics: \<^verbatim>\<open>calculate_stats\<close>\<close>

record stats =
  total_matches :: nat
  total_wins :: nat
  total_draws :: nat
  total_losses :: nat
  total_goals_for :: cell
  total_goals_against :: cell

text \<open>\<^verbatim>\<open>row[c] if row[c] is not None else 0\<close>\<close>

definition score_or_zero :: "row \<Rightarrow> string \<Rightarrow> error + cell" where
  "score_or_zero r c = bindE (row_get r c) (\<lambda>v. Inr (if v \<noteq> Null then v else IntV 0))"

text \<open>
  The goals of one match as (for, against): the home score is ours when the side
  indicator is \<^verbatim>\<open>Local\<close>, the away score when it is \<^verbatim>\<open>Visitant\<close>; any other side
  indicator gives \<^verbatim>\<open>None\<close> and the loop body adds nothing.
\<close>

definition match_goals :: "row \<Rightarrow> error + (cell \<times> cell) option" where
  "match_goals r =
     bindE (score_or_zero r Marcador_Local) (\<lambda>local_goals.
     bindE (score_or_zero r Marcador_Visitant) (\<lambda>visitor_goals.
     bindE (row_get r Posicio) (\<lambda>side.
       if side = StrV ''Local'' then Inr (Some (local_goals, visitor_goals))
       else if side = StrV ''Visitant'' then Inr (Some (visitor_goals, local_goals))
       else Inr None)))"

text \<open>One iteration of the loop of \<^verbatim>\<open>calculate_stats\<close> over the rows.\<close>

definition stats_step :: "row \<Rightarrow> cell \<times> cell \<Rightarrow> error + cell \<times> cell" where
  "stats_step r acc =
     bindE (match_goals r) (\<lambda>g.
       case g of
         None \<Rightarrow> Inr acc
       | Some (gf, ga) \<Rightarrow>
           bindE (py_add (fst acc) gf) (\<lambda>goals_for.
           bindE (py_add (snd acc) ga) (\<lambda>goals_against.
             Inr (goals_for, goals_against))))"

definition calculate_stats :: "DataFrame \<Rightarrow> error + stats" where
  "calculate_stats df_weeks =
     bindE (filter_eq_str df_weeks ''Resultat'' Victoria) (\<lambda>w.
     bindE (filter_eq_str df_weeks ''Resultat'' Empat) (\<lambda>d.
     bindE (filter_eq_str df_weeks ''Resultat'' Derrota) (\<lambda>l.
     bindE (series_sum df_weeks Marcador_Local) (\<lambda>s1.
     bindE (series_sum df_weeks Marcador_Visitant) (\<lambda>s2.
     bindE (py_add s1 s2) (\<lambda>total_goals_for.
     bindE (foldE stats_step (rows df_weeks) (IntV 0, IntV 0)) (\<lambda>(goals_for, goals_against).
       Inr \<lparr>total_matches = height df_weeks,
            total_wins = height w,
            total_draws = height d,
            total_losses = height l,
            total_goals_for = goals_for,
            total_goals_against = goals_against\<rparr>)))))))"

section \<open>Sorting a frame by a column\<close>

text \<open>
  The order in which the engine sorts a column: numbers by value with NaN above every
  other float, strings bytewise. A column holds cells of one type only, so the order
  between cells of different types (by constructor) is never consulted on a well-typed
  frame. Nulls come first, ascending or descending.
\<close>

fun float_le :: "pyfloat \<Rightarrow> pyfloat \<Rightarrow> bool" where
  "float_le _ NaN = True"
| "float_le NaN _ = False"
| "float_le NInf _ = True"
| "float_le _ NInf = False"
| "float_le _ PInf = True"
| "float_le PInf _ = False"
| "float_le (Fin a) (Fin b) = (a \<le> b)"

fun cell_le :: "cell \<Rightarrow> cell \<Rightarrow> bool" where
  "cell_le Null _ = True"
| "cell_le _ Null = False"
| "cell_le (IntV a) (IntV b) = (a \<le> b)"
| "cell_le (IntV a) _ = True"
| "cell_le _ (IntV b) = False"
| "cell_le (FloatV a) (FloatV b) = float_le a b"
| "cell_le (FloatV a) _ = True"
| "cell_le _ (FloatV b) = False"
| "cell_le (StrV a) (StrV b) = (a \<le> b)"

definition sort_le :: "bool \<Rightarrow> cell \<Rightarrow> cell \<Rightarrow> bool" where
  "sort_le descending a b =
     (if a = Null then True else if b = Null then False
      else if descending then cell_le b a else cell_le a b)"

primrec insert_row :: "string \<Rightarrow> bool \<Rightarrow> row \<Rightarrow> row list \<Rightarrow> row list" where
  "insert_row c descending x [] = [x]"
| "insert_row c descending x (y # ys) =
     (if sort_le descending (col_val x c) (col_val y c) then x # y # ys
      else y # insert_row c descending x ys)"

definition sort_rows :: "string \<Rightarrow> bool \<Rightarrow> row list \<Rightarrow> row list" where
  "sort_rows c descending rs = foldr (insert_row c descending) rs []"

text \<open>
  \<^verbatim>\<open>df.sort(c, descending=...)\<close>. The engine does not promise an order among rows with
  equal keys; this model keeps their input order.
\<close>

definition sort_frame :: "DataFrame \<Rightarrow> string \<Rightarrow> bool \<Rightarrow> error + DataFrame" where
  "sort_frame df c descending =
     (if c \<in> set (columns df) then Inr (df\<lparr>rows := sort_rows c descending (rows df)\<rparr>)
      else Inl (ColumnNotFoundError c))"

section \<open>Cumulative series: the chart loop of \<^verbatim>\<open>render_pages\<close>\<close>

record chart_data =
  labels :: "cell list"
  points :: "int list"
  goals_for :: "cell list"
  goals_against :: "cell list"
  results :: "cell list"

record chart_state =
  running_points :: int
  running_goals_for :: cell
  running_goals_against :: cell
  chart :: chart_data

definition chart_init :: chart_state where
  "chart_init =
     \<lparr>running_points = 0, running_goals_for = IntV 0, running_goals_against = IntV 0,
      chart = \<lparr>labels = [], points = [], goals_for = [], goals_against = [], results = []\<rparr>\<rparr>"

text \<open>Points of one match: 3 for a win, 1 for a draw, 0 for anything else.\<close>

definition match_points :: "cell \<Rightarrow> int" where
  "match_points res = (if res = StrV Victoria then 3 else if res = StrV Empat then 1 else 0)"

text \<open>One iteration of the chart loop over the sorted rows.\<close>

definition chart_step :: "row \<Rightarrow> chart_state \<Rightarrow> error + chart_state" where
  "chart_step r st =
     bindE (row_get r ''vs.'') (\<lambda>label.
     bindE (row_get r ''Resultat'') (\<lambda>res.
     bindE (match_goals r) (\<lambda>g.
       let rp = running_points st + match_points res;
           (match_gf, match_ga) = (case g of None \<Rightarrow> (IntV 0, IntV 0) | Some p \<Rightarrow> p)
       in
     bindE (py_add (running_goals_for st) match_gf) (\<lambda>rgf.
     bindE (py_add (running_goals_against st) match_ga) (\<lambda>rga.
       Inr \<lparr>running_points = rp, running_goals_for = rgf, running_goals_against = rga,
            chart = \<lparr>labels = labels (chart st) @ [label],
                     points = points (chart st) @ [rp],
                     goals_for = goals_for (chart st) @ [rgf],
                     goals_against = goals_against (chart st) @ [rga],
                     results = results (chart st) @ [res]\<rparr>\<rparr>)))))"

definition build_chart_data :: "DataFrame \<Rightarrow> error + chart_data" where
  "build_chart_data df_weeks =
     bindE (sort_frame df_weeks ''Jornada'' False) (\<lambda>df_sorted.
     bindE (foldE chart_step (rows df_sorted) chart_init) (\<lambda>st.
       Inr (chart st)))"

section \<open>The loader: \<^verbatim>\<open>load_data\<close>\<close>

subsection \<open>Reading a CSV file\<close>

text \<open>
  A CSV file as \<^verbatim>\<open>pl.read_csv\<close> sees it after splitting it into fields: the header names,
  each with the dtype the reader's schema inference gives the column, and the records as
  raw field texts. The inference is the engine's own and is not modelled: a file carries
  its outcome, and the theorems below hold for every outcome. A file that is missing or
  cannot be decoded is \<open>None\<close>.
\<close>

record csv_file =
  header :: "(string \<times> dtype) list"
  records :: "string list list"

definition null_values :: "string list" where
  "null_values = [''#DIV/0!'']"

subsection \<open>Numbers from text\<close>

definition is_digit :: "char \<Rightarrow> bool" where
  "is_digit c = (CHR ''0'' \<le> c \<and> c \<le> CHR ''9'')"

definition digits_val :: "string \<Rightarrow> int" where
  "digits_val s = foldl (\<lambda>n c. 10 * n + (of_char c - 48)) 0 s"

definition all_digits :: "string \<Rightarrow> bool" where
  "all_digits s = list_all is_digit s"

definition in_int64 :: "int \<Rightarrow> bool" where
  "in_int64 i = (- (2 ^ 63) \<le> i \<and> i < 2 ^ 63)"

text \<open>An optional sign in front of the rest of the text.\<close>

fun split_sign :: "string \<Rightarrow> bool \<times> string" where
  "split_sign [] = (False, [])"
| "split_sign (c # t) =
     (if c = CHR ''-'' then (True, t) else if c = CHR ''+'' then (False, t) else (False, c # t))"

text \<open>Text to a 64-bit integer: a sign and decimal digits, in range; anything else fails.\<close>

definition parse_int :: "string \<Rightarrow> int option" where
  "parse_int s =
     (let (neg, ds) = split_sign s;
          v = (if neg then - digits_val ds else digits_val ds)
      in if ds \<noteq> [] \<and> all_digits ds \<and> in_int64 v then Some v else None)"

text \<open>The code of a character, with an upper-case ASCII letter taken as its lower case.\<close>

definition lower_code :: "char \<Rightarrow> nat" where
  "lower_code c = (let n = of_char c in if 65 \<le> n \<and> n \<le> 90 then n + 32 else n)"

definition same_word :: "string \<Rightarrow> string \<Rightarrow> bool" where
  "same_word s w = (map lower_code s = map of_char w)"

text \<open>
  Text to a float: a sign, then \<^verbatim>\<open>inf\<close>, \<^verbatim>\<open>infinity\<close> or \<^verbatim>\<open>nan\<close> in any case, or
  decimal digits with an optional fraction and an optional exponent. The finite result is
  the exact rational the text denotes.
\<close>

definition parse_decimal :: "string \<Rightarrow> rat option" where
  "parse_decimal s =
     (let mant = takeWhile (\<lambda>c. c \<noteq> CHR ''e'' \<and> c \<noteq> CHR ''E'') s;
          rest = dropWhile (\<lambda>c. c \<noteq> CHR ''e'' \<and> c \<noteq> CHR ''E'') s;
          ip = takeWhile (\<lambda>c. c \<noteq> CHR ''.'') mant;
          fp = (case dropWhile (\<lambda>c. c \<noteq> CHR ''.'') mant of [] \<Rightarrow> [] | _ # t \<Rightarrow> t);
          m = of_int (digits_val (ip @ fp)) / 10 ^ length fp
      in if \<not> (all_digits ip \<and> all_digits fp \<and> ip @ fp \<noteq> []) then None
         else case rest of
           [] \<Rightarrow> Some m
         | _ # ex \<Rightarrow>
             (let (neg, ds) = split_sign ex
              in if ds \<noteq> [] \<and> all_digits ds
                 then Some (if neg then m / 10 ^ nat (digits_val ds) else m * 10 ^ nat (digits_val ds))
                 else None))"

definition parse_float :: "string \<Rightarrow> pyfloat option" where
  "parse_float s =
     (let (neg, body) = split_sign s
      in if same_word body ''nan'' then Some NaN
         else if same_word body ''inf'' \<or> same_word body ''infinity''
              then Some (if neg then NInf else PInf)
         else map_option (\<lambda>q. Fin (if neg then - q else q)) (parse_decimal body))"

subsection \<open>\<^verbatim>\<open>pl.read_csv(path, null_values=["#DIV/0!"])\<close>\<close>

text \<open>
  A field that is empty or is one of the null values is null, whatever the column's dtype.
  Any other field is read at the column's dtype; a field that cannot be read at a numeric
  dtype makes the whole read fail. An empty field is one with nothing between its
  separators: the engine reads a quoted empty field of a text column as the empty string,
  which the records of this model cannot tell from the unquoted one.
\<close>

definition parse_cell :: "dtype \<Rightarrow> string \<Rightarrow> error + cell" where
  "parse_cell dt raw =
     (if raw \<in> set null_values \<or> raw = [] then Inr Null
      else case dt of
        Utf8 \<Rightarrow> Inr (StrV raw)
      | Int64 \<Rightarrow> (case parse_int raw of Some i \<Rightarrow> Inr (IntV i) | None \<Rightarrow> Inl ComputeError)
      | Float64 \<Rightarrow> (case parse_float raw of Some f \<Rightarrow> Inr (FloatV f) | None \<Rightarrow> Inl ComputeError))"

text \<open>A record with fewer fields than the header is padded with nulls, one with more fails.\<close>

fun parse_record :: "(string \<times> dtype) list \<Rightarrow> string list \<Rightarrow> error + row" where
  "parse_record [] [] = Inr []"
| "parse_record [] (x # xs) = Inl ComputeError"
| "parse_record ((n, dt) # hs) [] = bindE (parse_record hs []) (\<lambda>r. Inr ((n, Null) # r))"
| "parse_record ((n, dt) # hs) (x # xs) =
     bindE (parse_cell dt x) (\<lambda>v. bindE (parse_record hs xs) (\<lambda>r. Inr ((n, v) # r)))"

fun mapE :: "('a \<Rightarrow> error + 'b) \<Rightarrow> 'a list \<Rightarrow> error + 'b list" where
  "mapE f [] = Inr []"
| "mapE f (x # xs) = bindE (f x) (\<lambda>y. bindE (mapE f xs) (\<lambda>ys. Inr (y # ys)))"

definition read_csv :: "csv_file option \<Rightarrow> error + DataFrame" where
  "read_csv f =
     (case f of
        None \<Rightarrow> Inl FileNotFoundError
      | Some c \<Rightarrow>
          bindE (mapE (parse_record (header c)) (records c)) (\<lambda>rs.
            Inr \<lparr>schema = header c, rows = rs\<rparr>))"

subsection \<open>Expressions on a column\<close>

text \<open>\<^verbatim>\<open>df.filter(pl.col(c).is_not_null())\<close>\<close>

definition filter_not_null :: "DataFrame \<Rightarrow> string \<Rightarrow> error + DataFrame" where
  "filter_not_null df c =
     (if c \<in> set (columns df) then Inr (df\<lparr>rows := filter (\<lambda>r. col_val r c \<noteq> Null) (rows df)\<rparr>)
      else Inl (ColumnNotFoundError c))"

text \<open>
  \<^verbatim>\<open>df.with_columns(pl.col(c).f())\<close> for a cell-wise expression \<open>f\<close> whose result has dtype
  \<open>dt\<close>: the column keeps its name and place.
\<close>

definition map_col :: "string \<Rightarrow> (cell \<Rightarrow> cell) \<Rightarrow> row \<Rightarrow> row" where
  "map_col c f r = map (\<lambda>(n, v). if n = c then (n, f v) else (n, v)) r"

definition with_column :: "string \<Rightarrow> dtype \<Rightarrow> (cell \<Rightarrow> cell) \<Rightarrow> DataFrame \<Rightarrow> DataFrame" where
  "with_column c dt f df =
     \<lparr>schema = map (\<lambda>(n, d). if n = c then (n, dt) else (n, d)) (schema df),
      rows = map (map_col c f) (rows df)\<rparr>"

text \<open>Truncation of a rational towards zero.\<close>

definition trunc :: "rat \<Rightarrow> int" where
  "trunc q = (if 0 \<le> q then \<lfloor>q\<rfloor> else \<lceil>q\<rceil>)"

text \<open>
  \<^verbatim>\<open>.cast(pl.Int64, strict=False)\<close>: text is read as an integer, a float is truncated; a
  value that has no 64-bit integer (unreadable text, NaN, an infinity, out of range) becomes
  null.
\<close>

fun cast_int64 :: "cell \<Rightarrow> cell" where
  "cast_int64 Null = Null"
| "cast_int64 (IntV i) = IntV i"
| "cast_int64 (FloatV (Fin q)) = (if in_int64 (trunc q) then IntV (trunc q) else Null)"
| "cast_int64 (FloatV _) = Null"
| "cast_int64 (StrV s) = (case parse_int s of Some i \<Rightarrow> IntV i | None \<Rightarrow> Null)"

text \<open>\<^verbatim>\<open>.str.replace(",", ".")\<close>: the first comma only.\<close>

definition replace_comma :: "string \<Rightarrow> string" where
  "replace_comma s =
     takeWhile (\<lambda>c. c \<noteq> CHR '','') s @
     (case dropWhile (\<lambda>c. c \<noteq> CHR '','') s of [] \<Rightarrow> [] | _ # t \<Rightarrow> CHR ''.'' # t)"

text \<open>
  \<^verbatim>\<open>.cast(pl.String).str.replace(",", ".").cast(pl.Float64, strict=False)\<close>: the text of a
  number holds no comma and reads back as the number; other text is read after the
  replacement, and is null when it is not a number. The result is the exact value: the
  engine's 64-bit float is the nearest one it can hold, which differs for integers beyond
  2 ^ 53, for long decimals and for magnitudes beyond its range.
\<close>

fun cast_float64 :: "cell \<Rightarrow> cell" where
  "cast_float64 Null = Null"
| "cast_float64 (IntV i) = FloatV (Fin (of_int i))"
| "cast_float64 (FloatV f) = FloatV f"
| "cast_float64 (StrV s) =
     (case parse_float (replace_comma s) of Some f \<Rightarrow> FloatV f | None \<Rightarrow> Null)"

text \<open>\<^verbatim>\<open>.fill_null(0)\<close> on a float column.\<close>

definition fill_null_0 :: "cell \<Rightarrow> cell" where
  "fill_null_0 v = (if v = Null then FloatV (Fin 0) else v)"

subsection \<open>The players table\<close>

definition Assistencies :: string where
  "Assistencies = ''Assist'' @ [CHR 0xC3, CHR 0xA8] @ ''ncies''"

definition Assitencies_x_partit :: string where
  "Assitencies_x_partit = ''Assit'' @ [CHR 0xC3, CHR 0xA8] @ ''ncies x partit''"

definition Minuts_sense_gols :: string where
  "Minuts_sense_gols = ''Minuts sense gols (porter)''"

definition numeric_cols_int :: "string list" where
  "numeric_cols_int =
     [''Partits'', ''Gols'', Assistencies, ''Grogues'', ''Vermelles'', ''Expulsions'',
      ''Normal'', ''Segon Pal'', ''Penalti'', ''D. Penalti'', ''Tir Lliure (falta)'']"

definition numeric_cols_float :: "string list" where
  "numeric_cols_float =
     [''Win Rate'', ''Loss Rate'', ''Draw Rate'', ''Gols x partit'',
      ''Partits per gol'', Assitencies_x_partit, ''Grogues_Ratio'',
      Minuts_sense_gols, ''Gols x partit en contra'',
      ''Gols x minut en contra'']"

text \<open>\<^verbatim>\<open>for col in cols: if col in df.columns: df = df.with_columns(...)\<close>\<close>

definition cast_cols :: "string list \<Rightarrow> dtype \<Rightarrow> (cell \<Rightarrow> cell) \<Rightarrow> DataFrame \<Rightarrow> DataFrame" where
  "cast_cols cols dt f df =
     fold (\<lambda>c d. if c \<in> set (columns d) then with_column c dt f d else d) cols df"

text \<open>The body of the first \<^verbatim>\<open>try\<close> of \<^verbatim>\<open>load_data\<close>.\<close>

definition load_players :: "csv_file option \<Rightarrow> error + DataFrame" where
  "load_players f =
     bindE (read_csv f) (\<lambda>df0.
     bindE (filter_not_null df0 ''Jugador'') (\<lambda>df1.
       let df2 = cast_cols numeric_cols_int Int64 cast_int64 df1;
           df3 = cast_cols numeric_cols_float Float64 cast_float64 df2;
           df4 = (if Minuts_sense_gols \<in> set (columns df3)
                  then with_column Minuts_sense_gols Int64 (\<lambda>v. cast_int64 (fill_null_0 v)) df3
                  else df3)
       in filter_not_null df4 ''Partits''))"

text \<open>The body of the second \<^verbatim>\<open>try\<close>.\<close>

definition load_weeks :: "csv_file option \<Rightarrow> error + DataFrame" where
  "load_weeks f = bindE (read_csv f) (\<lambda>df. filter_not_null df ''Jornada'')"

subsection \<open>Rounding and the whole loader\<close>

text \<open>
  \<^verbatim>\<open>pl.col(c).round(2)\<close> on the float columns. Exact halves go to the even neighbour, the
  engine's default. The model rounds the exact value, the engine the binary float, so the
  two can differ in the last digit; nothing proved below depends on a rounded value other
  than that rounding keeps null apart from the other cells.
\<close>

definition round_even :: "rat \<Rightarrow> int" where
  "round_even q =
     (let f = \<lfloor>q\<rfloor>; d = q - of_int f
      in if d < 1 / 2 then f else if 1 / 2 < d then f + 1 else if even f then f else f + 1)"

fun round2 :: "cell \<Rightarrow> cell" where
  "round2 (FloatV (Fin q)) = FloatV (Fin (of_int (round_even (q * 100)) / 100))"
| "round2 v = v"

definition round_df :: "DataFrame \<Rightarrow> DataFrame" where
  "round_df df =
     df\<lparr>rows := map (map (\<lambda>(n, v). (n, if map_of (schema df) n = Some Float64 then round2 v
                                   else v))) (rows df)\<rparr>"

datatype log_line =
    Loaded_players nat
  | Error_loading_players error
  | Loaded_weeks nat
  | Error_loading_weeks error

text \<open>
  \<^verbatim>\<open>load_data\<close>: an exception in either \<^verbatim>\<open>try\<close> is printed and the table becomes
  \<^verbatim>\<open>pl.DataFrame()\<close>. The result is the two frames and the lines printed.
\<close>

definition load_data :: "csv_file option \<Rightarrow> csv_file option \<Rightarrow> DataFrame \<times> DataFrame \<times> log_line list" where
  "load_data csv_players csv_weeks =
     (let (df_players, log1) =
            (case load_players csv_players of
               Inr df \<Rightarrow> (df, [Loaded_players (height df)])
             | Inl e \<Rightarrow> (empty_frame, [Error_loading_players e]));
          (df_weeks, log2) =
            (case load_weeks csv_weeks of
               Inr df \<Rightarrow> (df, [Loaded_weeks (height df)])
             | Inl e \<Rightarrow> (empty_frame, [Error_loading_weeks e]))
      in (round_df df_players, round_df df_weeks, log1 @ log2))"

section \<open>The leaderboard of \<^verbatim>\<open>render_pages\<close>\<close>

text \<open>
  How an entry shows its value: \<^verbatim>\<open>f"{v}{suffix}"\<close>, \<^verbatim>\<open>f"{v * 100:.2f}%"\<close> or
  \<^verbatim>\<open>f"{v:.2f}"\<close>. The value is kept as the cell it is taken from; the text of a float is
  not modelled. The link of an entry (the \<^verbatim>\<open>url\<close> column, made from the slug of the name)
  is left out.
\<close>

datatype display = Plain cell string | Percent cell | Fixed2 cell

record entry =
  name :: cell
  val :: display
  label :: string

text \<open>
  \<^verbatim>\<open>get_top_player\<close>: the first row of the rows with a value in \<open>col\<close>, sorted by \<open>col\<close>
  descending; \<open>None\<close> when no row has a value.
\<close>

definition get_top_player :: "DataFrame \<Rightarrow> string \<Rightarrow> string \<Rightarrow> string \<Rightarrow> error + entry option" where
  "get_top_player df col lbl suffix =
     bindE (filter_not_null df col) (\<lambda>valid_df.
       if height valid_df = 0 then Inr None
       else
         bindE (sort_frame valid_df col True) (\<lambda>sorted_df.
           case rows sorted_df of
             [] \<Rightarrow> Inl OutOfBoundsError
           | top_row # _ \<Rightarrow>
               bindE (row_get top_row ''Jugador'') (\<lambda>n.
               bindE (row_get top_row col) (\<lambda>v.
                 Inr (Some \<lparr>name = n, val = Plain v suffix, label = lbl\<rparr>)))))"

text \<open>Metric 6, written out in the source: the same selection on \<^verbatim>\<open>Win Rate\<close>.\<close>

definition top_win_rate :: "DataFrame \<Rightarrow> error + entry option" where
  "top_win_rate df =
     bindE (filter_not_null df ''Win Rate'') (\<lambda>valid_wr.
       if height valid_wr > 0 then
         bindE (sort_frame valid_wr ''Win Rate'' True) (\<lambda>sorted_df.
           case rows sorted_df of
             [] \<Rightarrow> Inl OutOfBoundsError
           | top_wr_row # _ \<Rightarrow>
               bindE (row_get top_wr_row ''Win Rate'') (\<lambda>v.
               bindE (row_get top_wr_row ''Jugador'') (\<lambda>n.
                 Inr (Some \<lparr>name = n,
                            val = (case v of IntV _ \<Rightarrow> Percent v | FloatV _ \<Rightarrow> Percent v
                                   | _ \<Rightarrow> Plain v []),
                            label = ''Major % Vict'' @ [CHR 0xC3, CHR 0xB2] @ ''ria''\<rparr>))))
       else Inr None)"

subsection \<open>The yellow-card ratio\<close>

text \<open>
  Division of floats, by the IEEE rules on the values modelled (the integer operands are
  converted to floats, so a zero is the positive zero).
\<close>

fun float_div :: "pyfloat \<Rightarrow> pyfloat \<Rightarrow> pyfloat" where
  "float_div NaN _ = NaN"
| "float_div _ NaN = NaN"
| "float_div (Fin a) (Fin b) =
     (if b \<noteq> 0 then Fin (a / b) else if 0 < a then PInf else if a < 0 then NInf else NaN)"
| "float_div (Fin a) _ = Fin 0"
| "float_div PInf (Fin b) = (if 0 \<le> b then PInf else NInf)"
| "float_div NInf (Fin b) = (if 0 \<le> b then NInf else PInf)"
| "float_div _ _ = NaN"

text \<open>\<^verbatim>\<open>pl.col(a) / pl.col(b)\<close> on numeric columns: true division, null when an operand is null.\<close>

fun true_div :: "cell \<Rightarrow> cell \<Rightarrow> cell" where
  "true_div (IntV a) (IntV b) = FloatV (float_div (Fin (of_int a)) (Fin (of_int b)))"
| "true_div (IntV a) (FloatV b) = FloatV (float_div (Fin (of_int a)) b)"
| "true_div (FloatV a) (IntV b) = FloatV (float_div a (Fin (of_int b)))"
| "true_div (FloatV a) (FloatV b) = FloatV (float_div a b)"
| "true_div _ _ = Null"

text \<open>\<^verbatim>\<open>.fill_nan(0)\<close>\<close>

fun fill_nan_0 :: "cell \<Rightarrow> cell" where
  "fill_nan_0 (FloatV NaN) = FloatV (Fin 0)"
| "fill_nan_0 v = v"

text \<open>\<^verbatim>\<open>(pl.col("Grogues") / pl.col("Partits")).fill_nan(0)\<close> on one row's two cells.\<close>

definition grogues_ratio :: "cell \<Rightarrow> cell \<Rightarrow> cell" where
  "grogues_ratio grogues partits = fill_nan_0 (true_div grogues partits)"

text \<open>
  \<^verbatim>\<open>df.with_columns(expr.alias(c))\<close>: the column \<open>c\<close> is replaced where it stands, or added
  at the end.
\<close>

definition set_column :: "string \<Rightarrow> dtype \<Rightarrow> (row \<Rightarrow> cell) \<Rightarrow> DataFrame \<Rightarrow> DataFrame" where
  "set_column c dt f df =
     (if c \<in> set (columns df)
      then \<lparr>schema = map (\<lambda>(n, d). if n = c then (n, dt) else (n, d)) (schema df),
            rows = map (\<lambda>r. map_col c (\<lambda>_. f r) r) (rows df)\<rparr>
      else \<lparr>schema = schema df @ [(c, dt)], rows = map (\<lambda>r. r @ [(c, f r)]) (rows df)\<rparr>)"

definition with_grogues_ratio :: "DataFrame \<Rightarrow> error + DataFrame" where
  "with_grogues_ratio df =
     (case (map_of (schema df) ''Grogues'', map_of (schema df) ''Partits'') of
        (None, _) \<Rightarrow> Inl (ColumnNotFoundError ''Grogues'')
      | (_, None) \<Rightarrow> Inl (ColumnNotFoundError ''Partits'')
      | (Some Utf8, _) \<Rightarrow> Inl InvalidOperationError
      | (_, Some Utf8) \<Rightarrow> Inl InvalidOperationError
      | _ \<Rightarrow> Inr (set_column ''Grogues_Ratio'' Float64
                  (\<lambda>r. grogues_ratio (col_val r ''Grogues'') (col_val r ''Partits'')) df))"

subsection \<open>The eight metrics\<close>

text \<open>\<^verbatim>\<open>float(s) > 0\<close> and \<^verbatim>\<open>int(s) > 0\<close> on the text of a value.\<close>

fun float_positive :: "cell \<Rightarrow> error + bool" where
  "float_positive (IntV i) = Inr (0 < i)"
| "float_positive (FloatV (Fin q)) = Inr (0 < q)"
| "float_positive (FloatV PInf) = Inr True"
| "float_positive (FloatV _) = Inr False"
| "float_positive _ = Inl ValueError"

fun int_positive :: "cell \<Rightarrow> error + bool" where
  "int_positive (IntV i) = Inr (0 < i)"
| "int_positive _ = Inl ValueError"

definition shown :: "display \<Rightarrow> cell" where
  "shown d = (case d of Plain v _ \<Rightarrow> v | Percent v \<Rightarrow> v | Fixed2 v \<Rightarrow> v)"

definition opt_list :: "'a option \<Rightarrow> 'a list" where
  "opt_list x = (case x of None \<Rightarrow> [] | Some e \<Rightarrow> [e])"

definition leaderboard :: "DataFrame \<Rightarrow> error + entry list" where
  "leaderboard df_players =
     bindE (get_top_player df_players ''Gols''
              (''M'' @ [CHR 0xC3, CHR 0xA0] @ ''xim Golejador'') []) (\<lambda>top_scorer.
     bindE (get_top_player df_players ''Gols x partit'' ''Gols / Partit'' []) (\<lambda>top_scorer_pg.
     bindE (get_top_player df_players Assistencies
              (''M'' @ [CHR 0xC3, CHR 0xA0] @ ''xim Assistent'') []) (\<lambda>top_assistant.
     bindE (get_top_player df_players Assitencies_x_partit ''Ass. / Partit'' []) (\<lambda>top_assistant_pg.
     bindE (get_top_player df_players Minuts_sense_gols
              ''Millor Porter (Minuts imbatut)'' [CHR 0x27]) (\<lambda>top_gk.
     bindE (top_win_rate df_players) (\<lambda>top_wr.
     bindE (with_grogues_ratio df_players) (\<lambda>df_ratio.
     bindE (get_top_player df_ratio ''Grogues_Ratio'' ''Major % Grogues/Partit'' []) (\<lambda>top_yellow.
     bindE (case top_yellow of
              None \<Rightarrow> Inr []
            | Some e \<Rightarrow>
                bindE (float_positive (shown (val e))) (\<lambda>pos.
                  Inr (if pos then [e\<lparr>val := Fixed2 (shown (val e))\<rparr>] else []))) (\<lambda>yellow.
     bindE (get_top_player df_ratio ''Vermelles''
              (''M'' @ [CHR 0xC3, CHR 0xA9] @ ''s Targetes Vermelles'') []) (\<lambda>top_red.
     bindE (case top_red of
              None \<Rightarrow> Inr []
            | Some e \<Rightarrow>
                bindE (int_positive (shown (val e))) (\<lambda>pos. Inr (if pos then [e] else []))) (\<lambda>red.
       Inr (opt_list top_scorer @ opt_list top_scorer_pg @ opt_list top_assistant @
            opt_list top_assistant_pg @ opt_list top_gk @ opt_list top_wr @ yellow @ red))))))))))))"

section \<open>\<^verbatim>\<open>render_pages\<close> and \<^verbatim>\<open>main\<close>\<close>

definition gk_names :: "string list" where
  "gk_names = [''SANCHEZ LAYA, PAU'', ''GISBERT PEREZ, ORIOL'', ''RAS JIMENEZ, BLAI'']"

text \<open>\<^verbatim>\<open>df.filter(pl.col(c).is_in(names))\<close> for a list of strings.\<close>

definition filter_is_in :: "DataFrame \<Rightarrow> string \<Rightarrow> string list \<Rightarrow> error + DataFrame" where
  "filter_is_in df c names =
     (case map_of (schema df) c of
        None \<Rightarrow> Inl (ColumnNotFoundError c)
      | Some Utf8 \<Rightarrow> Inr (df\<lparr>rows := filter (\<lambda>r. col_val r c \<in> StrV ` set names) (rows df)\<rparr>)
      | Some _ \<Rightarrow> Inl InvalidOperationError)"

text \<open>
  What \<^verbatim>\<open>render_pages\<close> hands to the templates. Reading the templates and writing the
  pages is outside the model, as are the file names and image paths of the players.
\<close>

record pages =
  index_stats :: stats
  recent_matches :: "row list"
  index_leaderboard :: "entry list"
  players :: "row list"
  goalkeepers :: "row list"
  weeks :: "row list"
  charts :: chart_data

definition render_pages :: "DataFrame \<Rightarrow> DataFrame \<Rightarrow> stats \<Rightarrow> error + pages" where
  "render_pages df_players df_weeks st =
     (let players_data = rows df_players;
          weeks_data = rows df_weeks;
          recent = (if length weeks_data > 0 then rev (drop (length weeks_data - 5) weeks_data)
                    else [])
      in
     bindE (filter_is_in df_players ''Jugador'' gk_names) (\<lambda>df_goalkeepers.
     bindE (build_chart_data df_weeks) (\<lambda>chart_data.
     bindE (leaderboard df_players) (\<lambda>lb.
       Inr \<lparr>index_stats = st, recent_matches = recent, index_leaderboard = lb,
            players = players_data, goalkeepers = rows df_goalkeepers,
            weeks = weeks_data, charts = chart_data\<rparr>))))"

text \<open>
  \<^verbatim>\<open>main\<close>: nothing catches an exception of \<^verbatim>\<open>calculate_stats\<close> or \<^verbatim>\<open>render_pages\<close>, so
  \<open>Inl\<close> is an exception that leaves the program.
\<close>

definition main :: "csv_file option \<Rightarrow> csv_file option \<Rightarrow> error + pages" where
  "main csv_players csv_weeks =
     (let (df_players, df_weeks, printed) = load_data csv_players csv_weeks
      in bindE (calculate_stats df_weeks) (\<lambda>st. render_pages df_players df_weeks st))"

section \<open>Vocabulary of the statements\<close>

subsection \<open>Well-typed frames\<close>

text \<open>
  A cell fits a dtype when it is null or of that type. In a well-typed frame every row has
  the columns of the schema, in order, with fitting cells; \<^verbatim>\<open>pl.read_csv\<close> returns such
  frames. A match table is one with the columns the two match stages read, the result
  indicator a string column and the two scores integer columns.
\<close>

fun conforms :: "dtype \<Rightarrow> cell \<Rightarrow> bool" where
  "conforms _ Null = True"
| "conforms Int64 (IntV _) = True"
| "conforms Float64 (FloatV _) = True"
| "conforms Utf8 (StrV _) = True"
| "conforms _ _ = False"

definition row_ok :: "(string \<times> dtype) list \<Rightarrow> row \<Rightarrow> bool" where
  "row_ok sch r = (map fst r = map fst sch \<and> list_all2 conforms (map snd sch) (map snd r))"

definition wf_frame :: "DataFrame \<Rightarrow> bool" where
  "wf_frame df = list_all (row_ok (schema df)) (rows df)"

definition weeks_ok :: "DataFrame \<Rightarrow> bool" where
  "weeks_ok df =
     (wf_frame df \<and>
      ''Jornada'' \<in> set (columns df) \<and> ''vs.'' \<in> set (columns df) \<and>
      Posicio \<in> set (columns df) \<and>
      map_of (schema df) ''Resultat'' = Some Utf8 \<and>
      map_of (schema df) Marcador_Local = Some Int64 \<and>
      map_of (schema df) Marcador_Visitant = Some Int64)"

subsection \<open>Goals and running totals\<close>

text \<open>
  The goals of a match for the team and against it, as integers: the rule of
  \<^const>\<open>match_goals\<close> on integer scores, with a null score as 0 and (0, 0) for an unknown
  side. \<open>running a xs\<close> is the list of the partial sums of \<open>xs\<close> on top of \<open>a\<close>.
\<close>

definition int_or_zero :: "cell \<Rightarrow> int" where
  "int_or_zero v = (case v of IntV i \<Rightarrow> i | _ \<Rightarrow> 0)"

definition side_goals :: "row \<Rightarrow> int \<times> int" where
  "side_goals r =
     (let h = int_or_zero (col_val r Marcador_Local); a = int_or_zero (col_val r Marcador_Visitant)
      in if col_val r Posicio = StrV ''Local'' then (h, a)
         else if col_val r Posicio = StrV ''Visitant'' then (a, h)
         else (0, 0))"

fun running :: "int \<Rightarrow> int list \<Rightarrow> int list" where
  "running a [] = []"
| "running a (x # xs) = (a + x) # running (a + x) xs"

text \<open>What the loops need of one row.\<close>

definition week_row_ok :: "row \<Rightarrow> bool" where
  "week_row_ok r =
     ((\<exists>v. map_of r ''vs.'' = Some v) \<and> (\<exists>v. map_of r ''Resultat'' = Some v) \<and>
      (\<exists>v. map_of r Posicio = Some v) \<and>
      (\<exists>v. map_of r Marcador_Local = Some v \<and> conforms Int64 v) \<and>
      (\<exists>v. map_of r Marcador_Visitant = Some v \<and> conforms Int64 v))"

subsection \<open>Match tables used below\<close>

text \<open>
  The scenario of the specification with the opponents' names left open, a table with one
  fixture that has not been played, and a table with a negative home score.
\<close>

definition weeks_schema :: "(string \<times> dtype) list" where
  "weeks_schema = [(''Jornada'', Int64), (''vs.'', Utf8), (Posicio, Utf8), (''Resultat'', Utf8),
     (Marcador_Local, Int64), (Marcador_Visitant, Int64)]"

definition week_row :: "cell \<Rightarrow> cell \<Rightarrow> cell \<Rightarrow> cell \<Rightarrow> cell \<Rightarrow> cell \<Rightarrow> row" where
  "week_row j opp side res home away =
     [(''Jornada'', j), (''vs.'', opp), (Posicio, side), (''Resultat'', res),
      (Marcador_Local, home), (Marcador_Visitant, away)]"

definition weeks_scenario :: "string \<Rightarrow> string \<Rightarrow> DataFrame" where
  "weeks_scenario opp1 opp2 = \<lparr>schema = weeks_schema, rows =
     [week_row (IntV 2) (StrV opp1) (StrV ''Visitant'') (StrV Victoria) (IntV 1) (IntV 3),
      week_row (IntV 1) (StrV opp2) (StrV ''Local'') (StrV Empat) (IntV 1) (IntV 1)]\<rparr>"

definition weeks_unplayed :: DataFrame where
  "weeks_unplayed = \<lparr>schema = weeks_schema, rows =
     [week_row (IntV 1) (StrV ''A'') (StrV ''Local'') Null Null Null]\<rparr>"

definition weeks_negative :: DataFrame where
  "weeks_negative = \<lparr>schema = weeks_schema, rows =
     [week_row (IntV 1) (StrV ''A'') (StrV ''Local'') (StrV Derrota) (IntV 2) (IntV 3),
      week_row (IntV 2) (StrV ''B'') (StrV ''Local'') (StrV Derrota) (IntV (-1)) (IntV 0)]\<rparr>"

text \<open>The scenario with a loss and a postponed fixture added, out of order.\<close>

definition weeks_mixed :: DataFrame where
  "weeks_mixed = \<lparr>schema = weeks_schema, rows =
     [week_row (IntV 3) (StrV ''C'') (StrV ''Local'') (StrV Derrota) (IntV 0) (IntV 2),
      week_row (IntV 2) (StrV ''B'') (StrV ''Visitant'') (StrV Victoria) (IntV 1) (IntV 3),
      week_row (IntV 4) (StrV ''D'') (StrV ''Local'') (StrV ''Ajornat'') Null Null,
      week_row (IntV 1) (StrV ''A'') (StrV ''Local'') (StrV Empat) (IntV 1) (IntV 1)]\<rparr>"

text \<open>A record whose result indicator is one of the three indicators.\<close>

definition known_result :: "row \<Rightarrow> bool" where
  "known_result r =
     (col_val r ''Resultat'' = StrV Victoria \<or> col_val r ''Resultat'' = StrV Empat \<or>
      col_val r ''Resultat'' = StrV Derrota)"

text \<open>A record with no negative score (a null score counts as 0).\<close>

definition nonneg_scores :: "row \<Rightarrow> bool" where
  "nonneg_scores r =
     (0 \<le> int_or_zero (col_val r Marcador_Local) \<and> 0 \<le> int_or_zero (col_val r Marcador_Visitant))"

subsection \<open>The loader, cell by cell\<close>

text \<open>What the three coercion passes of the loader do to the cell of column \<open>n\<close>.\<close>

definition coerce :: "string \<Rightarrow> cell \<Rightarrow> cell" where
  "coerce n v =
     (if n = Minuts_sense_gols then cast_int64 (fill_null_0 (cast_float64 v))
      else if n \<in> set numeric_cols_int then cast_int64 v
      else if n \<in> set numeric_cols_float then cast_float64 v
      else v)"

definition coerce_row :: "row \<Rightarrow> row" where
  "coerce_row r = map (\<lambda>(n, v). (n, coerce n v)) r"

text \<open>The rows the loader keeps, judged on the cells as read.\<close>

definition retained :: "row \<Rightarrow> bool" where
  "retained r = (col_val r ''Jugador'' \<noteq> Null \<and> cast_int64 (col_val r ''Partits'') \<noteq> Null)"

text \<open>Every key of every row is a column of the schema.\<close>

definition keyed :: "DataFrame \<Rightarrow> bool" where
  "keyed df = (\<forall>r\<in>set (rows df). \<forall>p\<in>set r. fst p \<in> set (columns df))"

text \<open>The coercion passes on a frame whose rows have no key outside the schema.\<close>

definition coerce_frame :: "DataFrame \<Rightarrow> DataFrame" where
  "coerce_frame df1 =
     (let df2 = cast_cols numeric_cols_int Int64 cast_int64 df1;
          df3 = cast_cols numeric_cols_float Float64 cast_float64 df2
      in if Minuts_sense_gols \<in> set (columns df3)
         then with_column Minuts_sense_gols Int64 (\<lambda>v. cast_int64 (fill_null_0 v)) df3
         else df3)"

subsection \<open>Player tables used below\<close>

text \<open>
  A players file with one goalkeeper, whose minutes field is \<open>raw\<close> in a column that the
  reader takes at dtype \<open>dt\<close>.
\<close>

definition minutes_csv :: "dtype \<Rightarrow> string \<Rightarrow> csv_file" where
  "minutes_csv dt raw =
     \<lparr>header = [(''Jugador'', Utf8), (''Partits'', Int64), (Minuts_sense_gols, dt)],
      records = [[''SANCHEZ LAYA, PAU'', ''5'', raw]]\<rparr>"

text \<open>A players file with a comma decimal, error tokens, unreadable numbers and two rows
  without a name.\<close>

definition players_csv :: csv_file where
  "players_csv =
     \<lparr>header = [(''Jugador'', Utf8), (''Partits'', Utf8), (''Gols'', Utf8),
                 (''Win Rate'', Utf8), (Minuts_sense_gols, Int64)],
      records = [[''RAS JIMENEZ, BLAI'', ''3'', ''x'', ''3,50'', ''#DIV/0!''],
                 [''#DIV/0!'', ''7'', ''2'', ''0,5'', ''90''],
                 [[], ''7'', ''2'', ''0,5'', ''90''],
                 [''VIDAL, ADRIA'', ''n/a'', ''4'', ''1'', ''0'']]\<rparr>"

text \<open>The same file as read: the token and the empty field are null.\<close>

definition players_read :: DataFrame where
  "players_read =
     \<lparr>schema = [(''Jugador'', Utf8), (''Partits'', Utf8), (''Gols'', Utf8),
                 (''Win Rate'', Utf8), (Minuts_sense_gols, Int64)],
      rows = [[(''Jugador'', StrV ''RAS JIMENEZ, BLAI''), (''Partits'', StrV ''3''),
               (''Gols'', StrV ''x''), (''Win Rate'', StrV ''3,50''), (Minuts_sense_gols, Null)],
              [(''Jugador'', Null), (''Partits'', StrV ''7''),
               (''Gols'', StrV ''2''), (''Win Rate'', StrV ''0,5''), (Minuts_sense_gols, IntV 90)],
              [(''Jugador'', Null), (''Partits'', StrV ''7''),
               (''Gols'', StrV ''2''), (''Win Rate'', StrV ''0,5''), (Minuts_sense_gols, IntV 90)],
              [(''Jugador'', StrV ''VIDAL, ADRIA''), (''Partits'', StrV ''n/a''),
               (''Gols'', StrV ''4''), (''Win Rate'', StrV ''1''), (Minuts_sense_gols, IntV 0)]]\<rparr>"


text \<open>A player is eligible for a metric when the metric's cell is not null.\<close>

definition eligible :: "string \<Rightarrow> row \<Rightarrow> bool" where
  "eligible col r = (col_val r col \<noteq> Null)"

text \<open>Players with 5 goals, 9 goals and no goal count.\<close>

definition players_goals :: DataFrame where
  "players_goals =
     \<lparr>schema = [(''Jugador'', Utf8), (''Gols'', Int64)],
      rows = [[(''Jugador'', StrV ''A''), (''Gols'', IntV 5)],
              [(''Jugador'', StrV ''B''), (''Gols'', IntV 9)],
              [(''Jugador'', StrV ''C''), (''Gols'', Null)]]\<rparr>"

text \<open>
  A loaded players table. The second player has played no match: the per-match ratios of
  the spreadsheet are error tokens and so null, and two yellow cards stand against no
  match played.
\<close>

definition players_frame :: DataFrame where
  "players_frame =
     \<lparr>schema = [(''Jugador'', Utf8), (''Partits'', Int64), (''Gols'', Int64),
                 (''Gols x partit'', Float64), (Assistencies, Int64),
                 (Assitencies_x_partit, Float64), (''Grogues'', Int64), (''Vermelles'', Int64),
                 (''Win Rate'', Float64), (Minuts_sense_gols, Int64)],
      rows = [[(''Jugador'', StrV ''A''), (''Partits'', IntV 4), (''Gols'', IntV 5),
               (''Gols x partit'', FloatV (Fin 1.25)), (Assistencies, IntV 1),
               (Assitencies_x_partit, FloatV (Fin 0.25)), (''Grogues'', IntV 2),
               (''Vermelles'', IntV 0), (''Win Rate'', FloatV (Fin 0.5)),
               (Minuts_sense_gols, IntV 0)],
              [(''Jugador'', StrV ''B''), (''Partits'', IntV 0), (''Gols'', IntV 0),
               (''Gols x partit'', Null), (Assistencies, IntV 0),
               (Assitencies_x_partit, Null), (''Grogues'', IntV 2),
               (''Vermelles'', IntV 0), (''Win Rate'', Null),
               (Minuts_sense_gols, IntV 0)],
              [(''Jugador'', StrV ''C''), (''Partits'', IntV 2), (''Gols'', IntV 1),
               (''Gols x partit'', FloatV (Fin 0.5)), (Assistencies, Null),
               (Assitencies_x_partit, Null), (''Grogues'', IntV 0),
               (''Vermelles'', IntV 0), (''Win Rate'', FloatV (Fin 0.75)),
               (Minuts_sense_gols, IntV 90)]]\<rparr>"

text \<open>The scenario of the specification as a CSV file.\<close>

definition weeks_csv :: csv_file where
  "weeks_csv =
     \<lparr>header = [(''Jornada'', Int64), (''vs.'', Utf8), (Posicio, Utf8), (''Resultat'', Utf8),
                 (Marcador_Local, Int64), (Marcador_Visitant, Int64)],
      records = [[''2'', ''B'', ''Visitant'', Victoria, ''1'', ''3''],
                 [''1'', ''A'', ''Local'', ''Empat'', ''1'', ''1'']]\<rparr>"

section \<open>Season statistics and cumulative series\<close>

lemma row_ok_lookup:
  "map fst r = map fst sch \<Longrightarrow> list_all2 conforms (map snd sch) (map snd r) \<Longrightarrow>
   map_of sch c = Some dt \<Longrightarrow> \<exists>v. map_of r c = Some v \<and> conforms dt v"
proof (induction sch arbitrary: r)
  case Nil
  then show ?case by simp
next
  case (Cons p sch)
  then obtain q r' where r: "r = q # r'" by (cases r) auto
  with Cons.prems have k: "fst q = fst p" and c: "conforms (snd p) (snd q)"
    and t: "map fst r' = map fst sch" "list_all2 conforms (map snd sch) (map snd r')"
    by auto
  show ?case
  proof (cases "fst p = c")
    case True
    with Cons.prems(3) have "dt = snd p" by (cases p) auto
    with True k c r show ?thesis by (cases q) auto
  next
    case False
    with Cons.prems(3) have "map_of sch c = Some dt" by (cases p) auto
    from Cons.IH[OF t this] False k r show ?thesis by (cases q) auto
  qed
qed

lemma row_ok_key:
  "map fst r = map fst sch \<Longrightarrow> c \<in> fst ` set sch \<Longrightarrow> \<exists>v. map_of r c = Some v"
  by (metis domD dom_map_of_conv_image_fst list.set_map)

lemma weeks_ok_rows:
  assumes "weeks_ok df" "r \<in> set (rows df)"
  shows "week_row_ok r"
proof -
  from assms have ro: "map fst r = map fst (schema df)"
      "list_all2 conforms (map snd (schema df)) (map snd r)"
    by (auto simp: weeks_ok_def wf_frame_def row_ok_def list_all_iff)
  from assms(1) have keys: "''vs.'' \<in> fst ` set (schema df)" "Posicio \<in> fst ` set (schema df)"
    and res: "map_of (schema df) ''Resultat'' = Some Utf8"
    and ml: "map_of (schema df) Marcador_Local = Some Int64"
    and mv: "map_of (schema df) Marcador_Visitant = Some Int64"
    by (auto simp: weeks_ok_def columns_def)
  show ?thesis
    unfolding week_row_ok_def
    using row_ok_key[OF ro(1) keys(1)] row_ok_key[OF ro(1) keys(2)]
      row_ok_lookup[OF ro res] row_ok_lookup[OF ro ml] row_ok_lookup[OF ro mv]
    by blast
qed

lemma conforms_Int64: "conforms Int64 v \<Longrightarrow> v = Null \<or> (\<exists>i. v = IntV i)"
  by (cases v) auto

lemma score_or_zero_ok:
  "map_of r c = Some v \<Longrightarrow> conforms Int64 v \<Longrightarrow>
   score_or_zero r c = Inr (IntV (int_or_zero (col_val r c)))"
  by (auto simp: score_or_zero_def row_get_def bindE_def col_val_def int_or_zero_def
      dest: conforms_Int64)

lemma match_goals_ok:
  assumes "week_row_ok r"
  shows "match_goals r =
     Inr (if col_val r Posicio = StrV ''Local'' \<or> col_val r Posicio = StrV ''Visitant''
          then Some (IntV (fst (side_goals r)), IntV (snd (side_goals r))) else None)"
proof -
  from assms obtain s l v where s: "map_of r Posicio = Some s"
    and l: "map_of r Marcador_Local = Some l" "conforms Int64 l"
    and v: "map_of r Marcador_Visitant = Some v" "conforms Int64 v"
    by (auto simp: week_row_ok_def)
  show ?thesis
    unfolding match_goals_def score_or_zero_ok[OF l] score_or_zero_ok[OF v]
    using s by (simp add: bindE_def row_get_def side_goals_def col_val_def Let_def)
qed

lemma side_goals_other:
  "col_val r Posicio \<noteq> StrV ''Local'' \<Longrightarrow> col_val r Posicio \<noteq> StrV ''Visitant'' \<Longrightarrow>
   side_goals r = (0, 0)"
  by (simp add: side_goals_def Let_def)

lemma stats_step_ok:
  assumes "week_row_ok r"
  shows "stats_step r (IntV a, IntV b) =
     Inr (IntV (a + fst (side_goals r)), IntV (b + snd (side_goals r)))"
  unfolding stats_step_def match_goals_ok[OF assms]
  by (simp add: bindE_def side_goals_other)

lemma foldE_stats_ok:
  "\<forall>r\<in>set rs. week_row_ok r \<Longrightarrow>
   foldE stats_step rs (IntV a, IntV b) =
     Inr (IntV (a + sum_list (map (\<lambda>r. fst (side_goals r)) rs)),
          IntV (b + sum_list (map (\<lambda>r. snd (side_goals r)) rs)))"
proof (induction rs arbitrary: a b)
  case Nil
  then show ?case by simp
next
  case (Cons r rs)
  then show ?case by (simp add: stats_step_ok bindE_def add.assoc)
qed

lemma chart_step_ok:
  assumes "week_row_ok r"
    and "running_goals_for st = IntV a" "running_goals_against st = IntV b"
  shows "chart_step r st =
     Inr \<lparr>running_points = running_points st + match_points (col_val r ''Resultat''),
          running_goals_for = IntV (a + fst (side_goals r)),
          running_goals_against = IntV (b + snd (side_goals r)),
          chart = \<lparr>labels = labels (chart st) @ [col_val r ''vs.''],
             points = points (chart st) @ [running_points st + match_points (col_val r ''Resultat'')],
             goals_for = goals_for (chart st) @ [IntV (a + fst (side_goals r))],
             goals_against = goals_against (chart st) @ [IntV (b + snd (side_goals r))],
             results = results (chart st) @ [col_val r ''Resultat'']\<rparr>\<rparr>"
proof -
  from assms(1) obtain l x where "map_of r ''vs.'' = Some l" "map_of r ''Resultat'' = Some x"
    by (auto simp: week_row_ok_def)
  then show ?thesis
    unfolding chart_step_def match_goals_ok[OF assms(1)]
    by (simp add: bindE_def row_get_def col_val_def[of r "''vs.''"] col_val_def[of r "''Resultat''"]
        assms(2,3) side_goals_other Let_def)
qed

lemma foldE_chart_ok:
  assumes "\<forall>r\<in>set rs. week_row_ok r"
    and "running_goals_for st = IntV a" "running_goals_against st = IntV b"
  shows "\<exists>st'. foldE chart_step rs st = Inr st' \<and>
     labels (chart st') = labels (chart st) @ map (\<lambda>r. col_val r ''vs.'') rs \<and>
     results (chart st') = results (chart st) @ map (\<lambda>r. col_val r ''Resultat'') rs \<and>
     points (chart st') = points (chart st) @
        running (running_points st) (map (\<lambda>r. match_points (col_val r ''Resultat'')) rs) \<and>
     goals_for (chart st') = goals_for (chart st) @
        map IntV (running a (map (\<lambda>r. fst (side_goals r)) rs)) \<and>
     goals_against (chart st') = goals_against (chart st) @
        map IntV (running b (map (\<lambda>r. snd (side_goals r)) rs))"
  using assms
proof (induction rs arbitrary: st a b)
  case Nil
  then show ?case by simp
next
  case (Cons r rs)
  let ?st1 = "\<lparr>running_points = running_points st + match_points (col_val r ''Resultat''),
          running_goals_for = IntV (a + fst (side_goals r)),
          running_goals_against = IntV (b + snd (side_goals r)),
          chart = \<lparr>labels = labels (chart st) @ [col_val r ''vs.''],
             points = points (chart st) @ [running_points st + match_points (col_val r ''Resultat'')],
             goals_for = goals_for (chart st) @ [IntV (a + fst (side_goals r))],
             goals_against = goals_against (chart st) @ [IntV (b + snd (side_goals r))],
             results = results (chart st) @ [col_val r ''Resultat'']\<rparr>\<rparr>"
  from Cons.prems have r: "week_row_ok r" and rs: "\<forall>r\<in>set rs. week_row_ok r" by auto
  have step: "chart_step r st = Inr ?st1"
    by (rule chart_step_ok[OF r Cons.prems(2,3)])
  from Cons.IH[OF rs, of ?st1 "a + fst (side_goals r)" "b + snd (side_goals r)"]
  obtain st' where "foldE chart_step rs ?st1 = Inr st'"
    and "labels (chart st') = labels (chart ?st1) @ map (\<lambda>r. col_val r ''vs.'') rs"
    and "results (chart st') = results (chart ?st1) @ map (\<lambda>r. col_val r ''Resultat'') rs"
    and "points (chart st') = points (chart ?st1) @
        running (running_points ?st1) (map (\<lambda>r. match_points (col_val r ''Resultat'')) rs)"
    and "goals_for (chart st') = goals_for (chart ?st1) @
        map IntV (running (a + fst (side_goals r)) (map (\<lambda>r. fst (side_goals r)) rs))"
    and "goals_against (chart st') = goals_against (chart ?st1) @
        map IntV (running (b + snd (side_goals r)) (map (\<lambda>r. snd (side_goals r)) rs))"
    by (simp only: chart_state.simps) blast
  then show ?case
    by (simp add: step bindE_def)
qed

lemma length_running: "length (running a xs) = length xs"
  by (induction xs arbitrary: a) auto

lemma running_Nil_iff: "running a xs = [] \<longleftrightarrow> xs = []"
  by (cases xs) auto

lemma last_running: "xs \<noteq> [] \<Longrightarrow> last (running a xs) = a + sum_list xs"
proof (induction xs arbitrary: a)
  case Nil
  then show ?case by simp
next
  case (Cons x xs)
  show ?case
  proof (cases "xs = []")
    case True
    then show ?thesis by simp
  next
    case False
    with Cons.IH[of "a + x"] show ?thesis
      by (simp add: running_Nil_iff add.assoc)
  qed
qed

lemma running_lower: "\<forall>x\<in>set xs. 0 \<le> x \<Longrightarrow> y \<in> set (running a xs) \<Longrightarrow> a \<le> y"
proof (induction xs arbitrary: a)
  case Nil
  then show ?case by simp
next
  case (Cons x xs)
  then show ?case by fastforce
qed

lemma sorted_running: "\<forall>x\<in>set xs. 0 \<le> x \<Longrightarrow> sorted (running a xs)"
proof (induction xs arbitrary: a)
  case Nil
  then show ?case by simp
next
  case (Cons x xs)
  then show ?case by (auto dest: running_lower)
qed

lemma float_le_total: "float_le a b \<or> float_le b a"
  by (cases a; cases b; simp) linarith

lemma float_le_trans: "float_le a b \<Longrightarrow> float_le b c \<Longrightarrow> float_le a c"
  by (cases a; cases b; cases c; simp)

lemma cell_le_total: "cell_le a b \<or> cell_le b a"
  by (cases a; cases b; simp add: float_le_total linear)

lemma cell_le_trans: "cell_le a b \<Longrightarrow> cell_le b c \<Longrightarrow> cell_le a c"
  apply (cases a; cases b; cases c; simp)
  apply (erule (1) float_le_trans)
  done

lemma sort_le_total: "sort_le d a b \<or> sort_le d b a"
  using cell_le_total by (auto simp: sort_le_def)

lemma sort_le_trans: "sort_le d a b \<Longrightarrow> sort_le d b c \<Longrightarrow> sort_le d a c"
  using cell_le_trans by (auto simp: sort_le_def split: if_splits)

lemma set_insert_row: "set (insert_row c d x ys) = insert x (set ys)"
  by (induction ys) auto

lemma sorted_insert_row:
  "sorted_wrt (\<lambda>a b. sort_le d (col_val a c) (col_val b c)) ys \<Longrightarrow>
   sorted_wrt (\<lambda>a b. sort_le d (col_val a c) (col_val b c)) (insert_row c d x ys)"
proof (induction ys)
  case Nil
  then show ?case by simp
next
  case (Cons y ys)
  show ?case
  proof (cases "sort_le d (col_val x c) (col_val y c)")
    case True
    with Cons.prems show ?thesis
      by (auto intro: sort_le_trans)
  next
    case False
    then have "sort_le d (col_val y c) (col_val x c)"
      using sort_le_total by blast
    with False Cons show ?thesis
      by (auto simp: set_insert_row)
  qed
qed

lemma sorted_sort_rows:
  "sorted_wrt (\<lambda>a b. sort_le d (col_val a c) (col_val b c)) (sort_rows c d rs)"
  unfolding sort_rows_def by (induction rs) (auto intro: sorted_insert_row)

lemma mset_insert_row: "mset (insert_row c d x ys) = add_mset x (mset ys)"
  by (induction ys) auto

lemma mset_sort_rows: "mset (sort_rows c d rs) = mset rs"
  unfolding sort_rows_def by (induction rs) (auto simp: mset_insert_row)

lemma set_sort_rows: "set (sort_rows c d rs) = set rs"
  by (metis mset_sort_rows set_mset_mset)

lemma length_sort_rows: "length (sort_rows c d rs) = length rs"
  by (metis mset_sort_rows size_mset)

lemma sum_list_sort_rows:
  fixes f :: "row \<Rightarrow> int"
  shows "sum_list (map f (sort_rows c d rs)) = sum_list (map f rs)"
proof -
  have "sum_mset (image_mset f (mset (sort_rows c d rs))) = sum_mset (image_mset f (mset rs))"
    by (simp add: mset_sort_rows)
  then show ?thesis by (simp add: sum_mset_sum_list flip: mset_map)
qed

lemma Victoria_neq_Empat: "Victoria \<noteq> Empat"
  by (simp add: Victoria_def Empat_def)

lemma sum_match_points:
  "sum_list (map (\<lambda>r. match_points (col_val r ''Resultat'')) rs) =
     3 * int (length (filter (\<lambda>r. col_val r ''Resultat'' = StrV Victoria) rs)) +
     int (length (filter (\<lambda>r. col_val r ''Resultat'' = StrV Empat) rs))"
  by (induction rs) (auto simp: match_points_def Victoria_neq_Empat)

lemma match_points_nonneg: "0 \<le> match_points v"
  by (simp add: match_points_def)

lemmas names_defs = Victoria_def Empat_def Derrota_def Posicio_def Marcador_Local_def Marcador_Visitant_def

lemmas eval_defs = weeks_schema_def week_row_def build_chart_data_def calculate_stats_def
    filter_eq_str_def series_sum_def height_def
    sort_frame_def columns_def sort_rows_def sort_le_def col_val_def
    chart_step_def chart_init_def stats_step_def bindE_def row_get_def match_goals_def score_or_zero_def match_points_def

lemma weeks_ok_scenario: "weeks_ok (weeks_scenario o1 o2)"
  by (simp add: weeks_ok_def wf_frame_def row_ok_def weeks_scenario_def columns_def
      weeks_schema_def week_row_def names_defs)

lemma calculate_stats_ok:
  assumes "weeks_ok df"
  shows "calculate_stats df =
    Inr \<lparr>total_matches = length (rows df),
         total_wins = length (filter (\<lambda>r. col_val r ''Resultat'' = StrV Victoria) (rows df)),
         total_draws = length (filter (\<lambda>r. col_val r ''Resultat'' = StrV Empat) (rows df)),
         total_losses = length (filter (\<lambda>r. col_val r ''Resultat'' = StrV Derrota) (rows df)),
         total_goals_for = IntV (sum_list (map (\<lambda>r. fst (side_goals r)) (rows df))),
         total_goals_against = IntV (sum_list (map (\<lambda>r. snd (side_goals r)) (rows df)))\<rparr>"
proof -
  from assms have res: "map_of (schema df) ''Resultat'' = Some Utf8"
    and ml: "map_of (schema df) Marcador_Local = Some Int64"
    and mv: "map_of (schema df) Marcador_Visitant = Some Int64"
    by (auto simp: weeks_ok_def)
  have rs: "\<forall>r\<in>set (rows df). week_row_ok r"
    using weeks_ok_rows[OF assms] by blast
  show ?thesis
    unfolding calculate_stats_def
    by (simp add: filter_eq_str_def series_sum_def res ml mv bindE_def height_def
        foldE_stats_ok[OF rs, of 0 0])
qed

lemma build_chart_data_ok:
  assumes "weeks_ok df"
  shows "build_chart_data df =
    Inr \<lparr>labels = map (\<lambda>r. col_val r ''vs.'') (sort_rows ''Jornada'' False (rows df)),
         points = running 0 (map (\<lambda>r. match_points (col_val r ''Resultat''))
                    (sort_rows ''Jornada'' False (rows df))),
         goals_for = map IntV (running 0 (map (\<lambda>r. fst (side_goals r))
                    (sort_rows ''Jornada'' False (rows df)))),
         goals_against = map IntV (running 0 (map (\<lambda>r. snd (side_goals r))
                    (sort_rows ''Jornada'' False (rows df)))),
         results = map (\<lambda>r. col_val r ''Resultat'') (sort_rows ''Jornada'' False (rows df))\<rparr>"
proof -
  from assms have j: "''Jornada'' \<in> set (columns df)"
    by (simp add: weeks_ok_def)
  have rs: "\<forall>r\<in>set (sort_rows ''Jornada'' False (rows df)). week_row_ok r"
    using weeks_ok_rows[OF assms] by (simp add: set_sort_rows)
  from foldE_chart_ok[OF rs, of chart_init 0 0]
  obtain st' where "foldE chart_step (sort_rows ''Jornada'' False (rows df)) chart_init = Inr st'"
    and "chart st' = \<lparr>labels = map (\<lambda>r. col_val r ''vs.'') (sort_rows ''Jornada'' False (rows df)),
         points = running 0 (map (\<lambda>r. match_points (col_val r ''Resultat''))
                    (sort_rows ''Jornada'' False (rows df))),
         goals_for = map IntV (running 0 (map (\<lambda>r. fst (side_goals r))
                    (sort_rows ''Jornada'' False (rows df)))),
         goals_against = map IntV (running 0 (map (\<lambda>r. snd (side_goals r))
                    (sort_rows ''Jornada'' False (rows df)))),
         results = map (\<lambda>r. col_val r ''Resultat'') (sort_rows ''Jornada'' False (rows df))\<rparr>"
    by (auto simp: chart_init_def)
  then show ?thesis
    by (simp add: build_chart_data_def sort_frame_def j bindE_def)
qed

lemma weeks_ok_unplayed: "weeks_ok weeks_unplayed"
  by (simp add: weeks_ok_def wf_frame_def row_ok_def weeks_unplayed_def columns_def
      weeks_schema_def week_row_def names_defs)

lemma weeks_ok_negative: "weeks_ok weeks_negative"
  by (simp add: weeks_ok_def wf_frame_def row_ok_def weeks_negative_def columns_def
      weeks_schema_def week_row_def names_defs)

lemma result_names_distinct: "Victoria \<noteq> Empat" "Victoria \<noteq> Derrota" "Empat \<noteq> Derrota"
  by (simp_all add: Victoria_def Empat_def Derrota_def)

lemma sort_le_ascending: "sort_le False a b = cell_le a b"
  by (cases a; cases b) (simp_all add: sort_le_def)

lemma weeks_ok_mixed: "weeks_ok weeks_mixed"
  by (simp add: weeks_ok_def wf_frame_def row_ok_def weeks_mixed_def columns_def
      weeks_schema_def week_row_def names_defs)

lemma match_points_rule:
  "match_points v = (if v = StrV Victoria then 3 else if v = StrV Empat then 1 else 0)"
  by (simp add: match_points_def)

text \<open>
  Claim C6. On a well-typed match table the cumulative series builder returns the series
  of some arrangement of the table's rows that is ascending in \<^verbatim>\<open>Jornada\<close>: the labels
  and results of the rows in that order, the running sums of 3 points for a win, 1 for a
  draw and 0 for a loss or anything else, and the running sums of the goals for and
  against resolved through the side indicator. On the scenario of the specification
  (fixture 2 away, won 1-3, listed before fixture 1 at home, drawn 1-1) the cumulative
  points are [1, 4], the cumulative goals for [1, 4] and the cumulative goals against
  [1, 2], whatever the opponents are called.
\<close>

theorem C6_sort_then_scan:
  "(weeks_ok df \<longrightarrow>
      (\<exists>rs. mset rs = mset (rows df) \<and>
         sorted_wrt (\<lambda>a b. cell_le (col_val a ''Jornada'') (col_val b ''Jornada'')) rs \<and>
         build_chart_data df =
           Inr \<lparr>labels = map (\<lambda>r. col_val r ''vs.'') rs,
                points = running 0
                  (map (\<lambda>r. if col_val r ''Resultat'' = StrV Victoria then 3
                            else if col_val r ''Resultat'' = StrV Empat then 1 else 0) rs),
                goals_for = map IntV (running 0 (map (\<lambda>r. fst (side_goals r)) rs)),
                goals_against = map IntV (running 0 (map (\<lambda>r. snd (side_goals r)) rs)),
                results = map (\<lambda>r. col_val r ''Resultat'') rs\<rparr>)) \<and>
   build_chart_data (weeks_scenario opp1 opp2) =
     Inr \<lparr>labels = [StrV opp2, StrV opp1], points = [1, 4],
          goals_for = [IntV 1, IntV 4], goals_against = [IntV 1, IntV 2],
          results = [StrV Empat, StrV Victoria]\<rparr>"
proof (intro conjI impI)
  assume ok: "weeks_ok df"
  let ?rs = "sort_rows ''Jornada'' False (rows df)"
  have "sorted_wrt (\<lambda>a b. cell_le (col_val a ''Jornada'') (col_val b ''Jornada'')) ?rs"
    using sorted_sort_rows[of False "''Jornada''" "rows df"] by (simp add: sort_le_ascending)
  moreover have "mset ?rs = mset (rows df)" by (rule mset_sort_rows)
  moreover note build_chart_data_ok[OF ok, unfolded match_points_rule]
  ultimately show "\<exists>rs. mset rs = mset (rows df) \<and>
         sorted_wrt (\<lambda>a b. cell_le (col_val a ''Jornada'') (col_val b ''Jornada'')) rs \<and>
         build_chart_data df =
           Inr \<lparr>labels = map (\<lambda>r. col_val r ''vs.'') rs,
                points = running 0
                  (map (\<lambda>r. if col_val r ''Resultat'' = StrV Victoria then 3
                            else if col_val r ''Resultat'' = StrV Empat then 1 else 0) rs),
                goals_for = map IntV (running 0 (map (\<lambda>r. fst (side_goals r)) rs)),
                goals_against = map IntV (running 0 (map (\<lambda>r. snd (side_goals r)) rs)),
                results = map (\<lambda>r. col_val r ''Resultat'') rs\<rparr>"
    by blast
next
  show "build_chart_data (weeks_scenario opp1 opp2) =
     Inr \<lparr>labels = [StrV opp2, StrV opp1], points = [1, 4],
          goals_for = [IntV 1, IntV 4], goals_against = [IntV 1, IntV 2],
          results = [StrV Empat, StrV Victoria]\<rparr>"
    by (simp add: weeks_scenario_def eval_defs names_defs)
qed


lemma weeks_mixed_sorted:
  "sort_rows ''Jornada'' False (rows weeks_mixed) =
     [week_row (IntV 1) (StrV ''A'') (StrV ''Local'') (StrV Empat) (IntV 1) (IntV 1),
      week_row (IntV 2) (StrV ''B'') (StrV ''Visitant'') (StrV Victoria) (IntV 1) (IntV 3),
      week_row (IntV 3) (StrV ''C'') (StrV ''Local'') (StrV Derrota) (IntV 0) (IntV 2),
      week_row (IntV 4) (StrV ''D'') (StrV ''Local'') (StrV ''Ajornat'') Null Null]"
proof -
  have j: "col_val (week_row j opp side res home away) ''Jornada'' = j" for j opp side res home away
    by (simp add: week_row_def col_val_def)
  show ?thesis
    by (simp add: weeks_mixed_def sort_rows_def sort_le_def j)
qed

lemma week_row_cells:
  "col_val (week_row j (StrV opp) side res home away) ''Jornada'' = j"
  "col_val (week_row j (StrV opp) side res home away) ''vs.'' = StrV opp"
  "col_val (week_row j (StrV opp) side res home away) ''Resultat'' = res"
  "col_val (week_row j (StrV opp) side res home away) Posicio = side"
  "col_val (week_row j (StrV opp) side res home away) Marcador_Local = home"
  "col_val (week_row j (StrV opp) side res home away) Marcador_Visitant = away"
  by (simp_all add: week_row_def col_val_def names_defs)

lemma weeks_mixed_rows:
  "map (\<lambda>r. (col_val r ''Jornada'', col_val r ''Resultat'', side_goals r)) (rows weeks_mixed) =
     [(IntV 3, StrV Derrota, (0, 2)), (IntV 2, StrV Victoria, (3, 1)),
      (IntV 4, StrV ''Ajornat'', (0, 0)), (IntV 1, StrV Empat, (1, 1))]"
  by (simp add: weeks_mixed_def week_row_cells side_goals_def int_or_zero_def)


lemma weeks_mixed_series:
  "build_chart_data weeks_mixed =
     Inr \<lparr>labels = [StrV ''A'', StrV ''B'', StrV ''C'', StrV ''D''], points = [1, 4, 4, 4],
          goals_for = [IntV 1, IntV 4, IntV 4, IntV 4],
          goals_against = [IntV 1, IntV 2, IntV 4, IntV 4],
          results = [StrV Empat, StrV Victoria, StrV Derrota, StrV ''Ajornat'']\<rparr>"
proof -
  have other: "''Ajornat'' \<noteq> Victoria" "''Ajornat'' \<noteq> Empat"
    by (simp_all add: Victoria_def Empat_def)
  show ?thesis
    unfolding build_chart_data_ok[OF weeks_ok_mixed] weeks_mixed_sorted
    by (simp add: week_row_cells match_points_def side_goals_def int_or_zero_def other
        result_names_distinct result_names_distinct[symmetric])
qed

theorem C6_sort_then_scan_witness:
  "weeks_ok weeks_mixed \<and>
   map (\<lambda>r. (col_val r ''Jornada'', col_val r ''Resultat'', side_goals r)) (rows weeks_mixed) =
     [(IntV 3, StrV Derrota, (0, 2)), (IntV 2, StrV Victoria, (3, 1)),
      (IntV 4, StrV ''Ajornat'', (0, 0)), (IntV 1, StrV Empat, (1, 1))] \<and>
   (\<exists>rs. mset rs = mset (rows weeks_mixed) \<and>
      sorted_wrt (\<lambda>a b. cell_le (col_val a ''Jornada'') (col_val b ''Jornada'')) rs \<and>
      build_chart_data weeks_mixed =
        Inr \<lparr>labels = map (\<lambda>r. col_val r ''vs.'') rs,
             points = running 0
               (map (\<lambda>r. if col_val r ''Resultat'' = StrV Victoria then 3
                         else if col_val r ''Resultat'' = StrV Empat then 1 else 0) rs),
             goals_for = map IntV (running 0 (map (\<lambda>r. fst (side_goals r)) rs)),
             goals_against = map IntV (running 0 (map (\<lambda>r. snd (side_goals r)) rs)),
             results = map (\<lambda>r. col_val r ''Resultat'') rs\<rparr>) \<and>
   build_chart_data weeks_mixed =
     Inr \<lparr>labels = [StrV ''A'', StrV ''B'', StrV ''C'', StrV ''D''], points = [1, 4, 4, 4],
          goals_for = [IntV 1, IntV 4, IntV 4, IntV 4],
          goals_against = [IntV 1, IntV 2, IntV 4, IntV 4],
          results = [StrV Empat, StrV Victoria, StrV Derrota, StrV ''Ajornat'']\<rparr>"
proof -
  have "\<exists>rs. mset rs = mset (rows weeks_mixed) \<and>
      sorted_wrt (\<lambda>a b. cell_le (col_val a ''Jornada'') (col_val b ''Jornada'')) rs \<and>
      build_chart_data weeks_mixed =
        Inr \<lparr>labels = map (\<lambda>r. col_val r ''vs.'') rs,
             points = running 0
               (map (\<lambda>r. if col_val r ''Resultat'' = StrV Victoria then 3
                         else if col_val r ''Resultat'' = StrV Empat then 1 else 0) rs),
             goals_for = map IntV (running 0 (map (\<lambda>r. fst (side_goals r)) rs)),
             goals_against = map IntV (running 0 (map (\<lambda>r. snd (side_goals r)) rs)),
             results = map (\<lambda>r. col_val r ''Resultat'') rs\<rparr>"
    by (rule C6_sort_then_scan[THEN conjunct1, THEN mp, OF weeks_ok_mixed])
  with weeks_ok_mixed weeks_mixed_rows weeks_mixed_series show ?thesis
    by (intro conjI) assumption+
qed

text \<open>
  Claim C2, as stated, fails: a fixture that is listed with its \<^verbatim>\<open>Jornada\<close> but has no
  result yet is counted as a match and is neither a win, a draw nor a loss.
\<close>

theorem C2_unplayed_fixture:
  "\<exists>st. calculate_stats weeks_unplayed = Inr st \<and>
        total_wins st + total_draws st + total_losses st \<noteq> total_matches st"
  by (simp add: weeks_unplayed_def eval_defs names_defs)

lemma tally_split:
  "length (filter (\<lambda>r. col_val r ''Resultat'' = StrV Victoria) rs) +
   length (filter (\<lambda>r. col_val r ''Resultat'' = StrV Empat) rs) +
   length (filter (\<lambda>r. col_val r ''Resultat'' = StrV Derrota) rs) =
   length (filter known_result rs)"
  by (induction rs) (auto simp: known_result_def result_names_distinct
      result_names_distinct[symmetric])

lemma calculate_stats_counts:
  assumes "calculate_stats df = Inr st"
  shows "total_matches st = length (rows df)"
    and "total_wins st = length (filter (\<lambda>r. col_val r ''Resultat'' = StrV Victoria) (rows df))"
    and "total_draws st = length (filter (\<lambda>r. col_val r ''Resultat'' = StrV Empat) (rows df))"
    and "total_losses st = length (filter (\<lambda>r. col_val r ''Resultat'' = StrV Derrota) (rows df))"
  using assms
  by (auto simp: calculate_stats_def filter_eq_str_def bindE_def height_def
      split: sum.splits option.splits dtype.splits prod.splits)

text \<open>
  Claim C2, amended. Wins, draws and losses together count the records whose result
  indicator is one of the three indicators; the sum is at most the number of matches and
  equals it exactly when every record has one of the three indicators.
\<close>

theorem C2_tally:
  assumes "calculate_stats df = Inr st"
  shows "total_matches st = length (rows df) \<and>
     total_wins st + total_draws st + total_losses st = length (filter known_result (rows df)) \<and>
     total_wins st + total_draws st + total_losses st \<le> total_matches st \<and>
     (total_wins st + total_draws st + total_losses st = total_matches st
        \<longleftrightarrow> (\<forall>r\<in>set (rows df). known_result r))"
proof -
  have t: "total_wins st + total_draws st + total_losses st = length (filter known_result (rows df))"
    by (simp add: calculate_stats_counts[OF assms] tally_split)
  have m: "total_matches st = length (rows df)"
    by (rule calculate_stats_counts[OF assms])
  have "length (filter known_result (rows df)) = length (rows df)
      \<longleftrightarrow> (\<forall>r\<in>set (rows df). known_result r)"
    by (metis filter_id_conv length_filter_le length_filter_less nat_less_le)
  with t m show ?thesis by simp
qed

theorem C2_tally_witness:
  "calculate_stats (weeks_scenario ''B'' ''A'') =
     Inr \<lparr>total_matches = 2, total_wins = 1, total_draws = 1, total_losses = 0,
          total_goals_for = IntV 4, total_goals_against = IntV 2\<rparr> \<and>
   (1::nat) + 1 + 0 = 2 \<and> list_all known_result (rows (weeks_scenario ''B'' ''A''))"
proof -
  have h: "calculate_stats (weeks_scenario ''B'' ''A'') =
     Inr \<lparr>total_matches = 2, total_wins = 1, total_draws = 1, total_losses = 0,
          total_goals_for = IntV 4, total_goals_against = IntV 2\<rparr>"
    by (simp add: weeks_scenario_def eval_defs names_defs)
  from C2_tally[OF h] show ?thesis
    using h by (simp add: list_all_iff)
qed

text \<open>
  Claim C4. On a well-typed match table with integer score columns both stages return;
  the series has one point per match, and for a non-empty table its last running goals
  for and against are the season totals. The season statistics hold no point total: the
  last running points are three times the wins plus the draws.
\<close>

theorem C4_series_meets_totals:
  assumes "weeks_ok df"
  shows "\<exists>st cd. calculate_stats df = Inr st \<and> build_chart_data df = Inr cd \<and>
     length (labels cd) = height df \<and> length (results cd) = height df \<and>
     length (points cd) = height df \<and> length (goals_for cd) = height df \<and>
     length (goals_against cd) = height df \<and>
     (rows df \<noteq> [] \<longrightarrow>
        last (points cd) = 3 * int (total_wins st) + int (total_draws st) \<and>
        last (goals_for cd) = total_goals_for st \<and>
        last (goals_against cd) = total_goals_against st)"
proof -
  let ?rs = "sort_rows ''Jornada'' False (rows df)"
  note st = calculate_stats_ok[OF assms]
  note cd = build_chart_data_ok[OF assms]
  have len: "length ?rs = length (rows df)" by (rule length_sort_rows)
  have ne: "rows df \<noteq> [] \<Longrightarrow> ?rs \<noteq> []"
    using len by auto
  have pts: "rows df \<noteq> [] \<Longrightarrow>
     last (running 0 (map (\<lambda>r. match_points (col_val r ''Resultat'')) ?rs)) =
       3 * int (length (filter (\<lambda>r. col_val r ''Resultat'' = StrV Victoria) (rows df))) +
       int (length (filter (\<lambda>r. col_val r ''Resultat'' = StrV Empat) (rows df)))"
  proof -
    assume "rows df \<noteq> []"
    then have "last (running 0 (map (\<lambda>r. match_points (col_val r ''Resultat'')) ?rs)) =
        sum_list (map (\<lambda>r. match_points (col_val r ''Resultat'')) ?rs)"
      using ne by (simp add: last_running)
    also have "\<dots> = sum_list (map (\<lambda>r. match_points (col_val r ''Resultat'')) (rows df))"
      by (rule sum_list_sort_rows)
    finally show ?thesis by (simp only: sum_match_points)
  qed
  have gf: "rows df \<noteq> [] \<Longrightarrow>
     last (map IntV (running 0 (map (\<lambda>r. fst (side_goals r)) ?rs))) =
       IntV (sum_list (map (\<lambda>r. fst (side_goals r)) (rows df)))"
    using ne by (simp add: last_map running_Nil_iff last_running sum_list_sort_rows)
  have ga: "rows df \<noteq> [] \<Longrightarrow>
     last (map IntV (running 0 (map (\<lambda>r. snd (side_goals r)) ?rs))) =
       IntV (sum_list (map (\<lambda>r. snd (side_goals r)) (rows df)))"
    using ne by (simp add: last_map running_Nil_iff last_running sum_list_sort_rows)
  show ?thesis
    unfolding st cd
    using pts gf ga by (simp add: height_def length_running len)
qed

theorem C4_series_meets_totals_witness:
  "weeks_ok (weeks_scenario ''B'' ''A'') \<and>
   (\<exists>st cd. calculate_stats (weeks_scenario ''B'' ''A'') = Inr st \<and>
      build_chart_data (weeks_scenario ''B'' ''A'') = Inr cd \<and>
      length (points cd) = 2 \<and> last (points cd) = 4 \<and> total_wins st = 1 \<and> total_draws st = 1 \<and>
      last (goals_for cd) = IntV 4 \<and> total_goals_for st = IntV 4 \<and>
      last (goals_against cd) = IntV 2 \<and> total_goals_against st = IntV 2)"
proof -
  have ne: "rows (weeks_scenario ''B'' ''A'') \<noteq> []"
    by (simp add: weeks_scenario_def)
  have st: "calculate_stats (weeks_scenario ''B'' ''A'') =
     Inr \<lparr>total_matches = 2, total_wins = 1, total_draws = 1, total_losses = 0,
          total_goals_for = IntV 4, total_goals_against = IntV 2\<rparr>"
    by (simp add: weeks_scenario_def eval_defs names_defs)
  have h: "height (weeks_scenario ''B'' ''A'') = 2"
    by (simp add: height_def weeks_scenario_def)
  from C4_series_meets_totals[OF weeks_ok_scenario, of "''B''" "''A''"]
  show ?thesis
    unfolding h using ne st weeks_ok_scenario by auto
qed

lemma side_goals_nonneg:
  "nonneg_scores r \<Longrightarrow> 0 \<le> fst (side_goals r) \<and> 0 \<le> snd (side_goals r)"
  by (simp add: nonneg_scores_def side_goals_def Let_def)

lemma chart_step_points:
  "chart_step r st = Inr st' \<Longrightarrow>
   \<exists>p. 0 \<le> p \<and> running_points st' = running_points st + p \<and>
       points (chart st') = points (chart st) @ [running_points st + p]"
  by (auto simp: chart_step_def bindE_def Let_def match_points_nonneg
      split: sum.splits prod.splits intro!: exI[of _ "match_points _"])

lemma foldE_chart_points:
  "foldE chart_step rs st = Inr st' \<Longrightarrow>
   \<exists>ps. (\<forall>p\<in>set ps. 0 \<le> p) \<and> points (chart st') = points (chart st) @ running (running_points st) ps
     \<and> running_points st' = running_points st + sum_list ps"
proof (induction rs arbitrary: st)
  case Nil
  then show ?case by (auto intro: exI[of _ "[]"])
next
  case (Cons r rs)
  then obtain st1 where s1: "chart_step r st = Inr st1" and s2: "foldE chart_step rs st1 = Inr st'"
    by (auto simp: bindE_def split: sum.splits)
  from chart_step_points[OF s1] obtain p where p: "0 \<le> p"
    "running_points st1 = running_points st + p"
    "points (chart st1) = points (chart st) @ [running_points st + p]" by blast
  from Cons.IH[OF s2] obtain ps where ps: "\<forall>p\<in>set ps. 0 \<le> p"
    "points (chart st') = points (chart st1) @ running (running_points st1) ps"
    "running_points st' = running_points st1 + sum_list ps" by blast
  show ?case
    using p ps by (intro exI[of _ "p # ps"]) (simp add: add.assoc)
qed

lemma sorted_points:
  assumes "build_chart_data df = Inr cd"
  shows "sorted (points cd)"
proof -
  from assms obtain st' rs where "foldE chart_step rs chart_init = Inr st'" "cd = chart st'"
    by (auto simp: build_chart_data_def bindE_def split: sum.splits)
  with foldE_chart_points[of rs chart_init st'] show ?thesis
    by (auto simp: chart_init_def sorted_running)
qed

text \<open>
  Claim C5, as stated, fails: a score column is an integer column, nothing in the loader
  or the builder rejects a negative score, and a negative home score makes the running
  goals-for total fall from 2 to 1.
\<close>

theorem C5_negative_score:
  "\<exists>cd. build_chart_data weeks_negative = Inr cd \<and> goals_for cd = [IntV 2, IntV 1] \<and>
        \<not> cell_le (goals_for cd ! 0) (goals_for cd ! 1)"
  by (simp add: weeks_negative_def eval_defs names_defs)

text \<open>
  Claim C5, amended. Whenever the builder returns, the running point total never
  decreases along the series. On a well-typed match table in which no score is negative
  the builder returns and the running goals for and against never decrease either. Both
  hold for every input order, since the builder sorts its own copy.
\<close>

theorem C5_monotone:
  "(build_chart_data df = Inr cd \<longrightarrow> sorted (points cd)) \<and>
   (weeks_ok df \<and> list_all nonneg_scores (rows df) \<longrightarrow>
      (\<exists>cd gf ga. build_chart_data df = Inr cd \<and> sorted (points cd) \<and>
         goals_for cd = map IntV gf \<and> sorted gf \<and>
         goals_against cd = map IntV ga \<and> sorted ga))"
proof (intro conjI impI)
  assume "build_chart_data df = Inr cd"
  then show "sorted (points cd)" by (rule sorted_points)
next
  assume a: "weeks_ok df \<and> list_all nonneg_scores (rows df)"
  let ?rs = "sort_rows ''Jornada'' False (rows df)"
  from a have nn: "\<forall>r\<in>set ?rs. nonneg_scores r"
    by (simp add: set_sort_rows list_all_iff)
  have "sorted (running 0 (map (\<lambda>r. fst (side_goals r)) ?rs))"
    "sorted (running 0 (map (\<lambda>r. snd (side_goals r)) ?rs))"
    using nn by (auto intro!: sorted_running simp: side_goals_nonneg)
  moreover from a have "build_chart_data df = Inr \<lparr>labels = map (\<lambda>r. col_val r ''vs.'') ?rs,
         points = running 0 (map (\<lambda>r. match_points (col_val r ''Resultat'')) ?rs),
         goals_for = map IntV (running 0 (map (\<lambda>r. fst (side_goals r)) ?rs)),
         goals_against = map IntV (running 0 (map (\<lambda>r. snd (side_goals r)) ?rs)),
         results = map (\<lambda>r. col_val r ''Resultat'') ?rs\<rparr>"
    by (simp add: build_chart_data_ok)
  ultimately show "\<exists>cd gf ga. build_chart_data df = Inr cd \<and> sorted (points cd) \<and>
         goals_for cd = map IntV gf \<and> sorted gf \<and>
         goals_against cd = map IntV ga \<and> sorted ga"
    using sorted_points by fastforce
qed

theorem C5_monotone_witness:
  "weeks_ok (weeks_scenario ''B'' ''A'') \<and>
   list_all nonneg_scores (rows (weeks_scenario ''B'' ''A'')) \<and>
   (\<exists>cd. build_chart_data (weeks_scenario ''B'' ''A'') = Inr cd \<and> points cd = [1, 4] \<and>
      sorted (points cd) \<and> goals_for cd = map IntV [1, 4] \<and> goals_against cd = map IntV [1, 2])"
proof -
  have nn: "list_all nonneg_scores (rows (weeks_scenario ''B'' ''A''))"
    by (simp add: weeks_scenario_def nonneg_scores_def int_or_zero_def col_val_def
        week_row_def names_defs)
  have cd: "build_chart_data (weeks_scenario ''B'' ''A'') =
     Inr \<lparr>labels = [StrV ''A'', StrV ''B''], points = [1, 4],
          goals_for = [IntV 1, IntV 4], goals_against = [IntV 1, IntV 2],
          results = [StrV Empat, StrV Victoria]\<rparr>"
    by (simp add: weeks_scenario_def eval_defs names_defs)
  from C5_monotone[of "weeks_scenario ''B'' ''A''"
      "\<lparr>labels = [StrV ''A'', StrV ''B''], points = [1, 4],
          goals_for = [IntV 1, IntV 4], goals_against = [IntV 1, IntV 2],
          results = [StrV Empat, StrV Victoria]\<rparr>"]
  show ?thesis
    using nn cd weeks_ok_scenario by simp
qed

section \<open>The loader\<close>

lemma round_df_empty: "round_df empty_frame = empty_frame"
  by (simp add: round_df_def empty_frame_def)

lemma load_none:
  "load_players None = Inl FileNotFoundError" "load_weeks None = Inl FileNotFoundError"
  by (simp_all add: load_players_def load_weeks_def read_csv_def bindE_def)


lemma map_fst_map_col: "map fst (map_col c f r) = map fst r"
  by (induction r) (auto simp: map_col_def)

lemma columns_with_column: "columns (with_column c dt f df) = columns df"
  by (induction "schema df") (auto simp: columns_def with_column_def comp_def case_prod_beta)

lemma rows_with_column: "rows (with_column c dt f df) = map (map_col c f) (rows df)"
  by (simp add: with_column_def)

lemma fold_map_col:
  "distinct cs \<Longrightarrow>
   fold (\<lambda>c. map_col c f) cs r = map (\<lambda>(n, v). (n, if n \<in> set cs then f v else v)) r"
proof (induction cs arbitrary: r)
  case Nil
  then show ?case by (simp add: case_prod_beta)
next
  case (Cons c cs)
  then show ?case
    by (auto simp: map_col_def case_prod_beta)
qed

lemma cast_cols_columns: "columns (cast_cols cols dt f df) = columns df"
  unfolding cast_cols_def
  by (induction cols arbitrary: df) (auto simp: columns_with_column)

lemma cast_cols_rows:
  "rows (cast_cols cols dt f df) =
     map (fold (\<lambda>c. map_col c f) (filter (\<lambda>c. c \<in> set (columns df)) cols)) (rows df)"
  unfolding cast_cols_def
proof (induction cols arbitrary: df)
  case Nil
  then show ?case by simp
next
  case (Cons c cols)
  show ?case
    by (simp add: Cons.IH columns_with_column rows_with_column comp_def)
qed

lemma cast_cols_keyed_rows:
  assumes "distinct cols" "keyed df"
  shows "rows (cast_cols cols dt f df) =
     map (map (\<lambda>(n, v). (n, if n \<in> set cols then f v else v))) (rows df)"
proof -
  have d: "distinct (filter (\<lambda>c. c \<in> set (columns df)) cols)"
    using assms(1) by simp
  have "map (\<lambda>(n, v). (n, if n \<in> set (filter (\<lambda>c. c \<in> set (columns df)) cols) then f v else v)) r =
        map (\<lambda>(n, v). (n, if n \<in> set cols then f v else v)) r"
    if "r \<in> set (rows df)" for r
    using that assms(2) by (fastforce simp: keyed_def)
  then show ?thesis
    by (simp add: cast_cols_rows fold_map_col[OF d])
qed

lemma map_fst_fold_map_col: "map fst (fold (\<lambda>c. map_col c f) cs r) = map fst r"
  by (induction cs arbitrary: r) (auto simp: map_fst_map_col)

lemma keyed_same_keys:
  assumes "keyed df" "columns df' = columns df"
    and "\<forall>r'\<in>set (rows df'). \<exists>r\<in>set (rows df). map fst r' = map fst r"
  shows "keyed df'"
  unfolding keyed_def
proof (intro ballI)
  fix r' p assume r': "r' \<in> set (rows df')" and p: "p \<in> set r'"
  from assms(3) r' obtain r where r: "r \<in> set (rows df)" "map fst r' = map fst r" by blast
  from p have "fst p \<in> set (map fst r')" by simp
  with r(2) have "fst p \<in> set (map fst r)" by simp
  then obtain q where "q \<in> set r" "fst q = fst p" by auto
  with assms(1) r(1) show "fst p \<in> set (columns df')"
    unfolding keyed_def assms(2) by metis
qed

lemma cast_cols_keyed: "keyed df \<Longrightarrow> keyed (cast_cols cols dt f df)"
  by (rule keyed_same_keys[where df = df])
     (auto simp: cast_cols_columns cast_cols_rows map_fst_fold_map_col)

lemma numeric_cols_distinct: "distinct numeric_cols_int" "distinct numeric_cols_float"
  by (simp_all add: numeric_cols_int_def numeric_cols_float_def Assistencies_def
      Assitencies_x_partit_def Minuts_sense_gols_def)

lemma numeric_cols_disjoint: "n \<in> set numeric_cols_int \<Longrightarrow> n \<notin> set numeric_cols_float"
  by (auto simp: numeric_cols_int_def numeric_cols_float_def Assistencies_def
      Assitencies_x_partit_def Minuts_sense_gols_def)

lemma Minuts_is_float_col:
  "Minuts_sense_gols \<in> set numeric_cols_float" "Minuts_sense_gols \<notin> set numeric_cols_int"
  by (simp_all add: numeric_cols_int_def numeric_cols_float_def Assistencies_def
      Assitencies_x_partit_def Minuts_sense_gols_def)

lemma parse_record_keys: "parse_record hs xs = Inr r \<Longrightarrow> map fst r = map fst hs"
  by (induction hs xs arbitrary: r rule: parse_record.induct)
     (auto simp: bindE_def split: sum.splits)

lemma mapE_Inr:
  "mapE f xs = Inr ys \<Longrightarrow> \<forall>y\<in>set ys. \<exists>x\<in>set xs. f x = Inr y"
  by (induction xs arbitrary: ys) (auto simp: bindE_def split: sum.splits)

lemma read_csv_keyed:
  assumes "read_csv f = Inr df"
  shows "keyed df"
proof -
  from assms obtain c rs where c: "f = Some c"
    and rs: "mapE (parse_record (header c)) (records c) = Inr rs"
    and df: "df = \<lparr>schema = header c, rows = rs\<rparr>"
    by (auto simp: read_csv_def bindE_def split: option.splits sum.splits)
  have "map fst r = map fst (header c)" if "r \<in> set rs" for r
    using mapE_Inr[OF rs] that parse_record_keys by blast
  then show ?thesis
    unfolding keyed_def df columns_def by (metis DataFrame.select_convs image_eqI list.set_map)
qed

lemma col_val_coerce_row:
  "col_val (coerce_row r) c = (case map_of r c of Some v \<Rightarrow> coerce c v | None \<Rightarrow> Null)"
  by (induction r) (auto simp: coerce_row_def col_val_def)

lemma coerce_Partits: "coerce ''Partits'' v = cast_int64 v"
  by (simp add: coerce_def numeric_cols_int_def Minuts_sense_gols_def)

lemma coerce_Jugador: "coerce ''Jugador'' v = v"
  by (simp add: coerce_def numeric_cols_int_def numeric_cols_float_def Minuts_sense_gols_def
      Assistencies_def Assitencies_x_partit_def)

lemma col_val_coerce_row_Partits:
  "col_val (coerce_row r) ''Partits'' = cast_int64 (col_val r ''Partits'')"
  by (cases "map_of r ''Partits''") (simp_all add: col_val_coerce_row coerce_Partits col_val_def[of r])

lemma col_val_coerce_row_Jugador:
  "col_val (coerce_row r) ''Jugador'' = col_val r ''Jugador''"
  by (cases "map_of r ''Jugador''") (simp_all add: col_val_coerce_row coerce_Jugador col_val_def[of r])

lemma three_passes:
  "(let v1 = (if n \<in> set numeric_cols_int then cast_int64 v else v);
        v2 = (if n \<in> set numeric_cols_float then cast_float64 v1 else v1)
    in if n = Minuts_sense_gols then cast_int64 (fill_null_0 v2) else v2) = coerce n v"
  using numeric_cols_disjoint[of n] Minuts_is_float_col
  by (auto simp: coerce_def Let_def)

lemma coerce_frame_columns: "columns (coerce_frame df) = columns df"
  by (simp add: coerce_frame_def Let_def cast_cols_columns columns_with_column)

lemma map_col_absent: "c \<notin> fst ` set r \<Longrightarrow> map_col c f r = r"
  by (induction r) (auto simp: map_col_def)

lemma coerce_frame_rows:
  assumes "keyed df"
  shows "rows (coerce_frame df) = map coerce_row (rows df)"
proof -
  let ?df2 = "cast_cols numeric_cols_int Int64 cast_int64 df"
  let ?df3 = "cast_cols numeric_cols_float Float64 cast_float64 ?df2"
  let ?g = "\<lambda>v. cast_int64 (fill_null_0 v)"
  have k2: "keyed ?df2" by (rule cast_cols_keyed[OF assms])
  have k3: "keyed ?df3" by (rule cast_cols_keyed[OF k2])
  have r2: "rows ?df2 =
      map (map (\<lambda>(n, v). (n, if n \<in> set numeric_cols_int then cast_int64 v else v))) (rows df)"
    by (rule cast_cols_keyed_rows[OF numeric_cols_distinct(1) assms])
  have r3: "rows ?df3 =
      map (map (\<lambda>(n, v). (n, if n \<in> set numeric_cols_float then cast_float64 v else v))) (rows ?df2)"
    by (rule cast_cols_keyed_rows[OF numeric_cols_distinct(2) k2])
  have r4: "rows (coerce_frame df) = map (map_col Minuts_sense_gols ?g) (rows ?df3)"
  proof (cases "Minuts_sense_gols \<in> set (columns ?df3)")
    case True
    then show ?thesis by (simp add: coerce_frame_def Let_def rows_with_column)
  next
    case False
    with k3 have "\<forall>r\<in>set (rows ?df3). Minuts_sense_gols \<notin> fst ` set r"
      unfolding keyed_def by fastforce
    then have "map (map_col Minuts_sense_gols ?g) (rows ?df3) = rows ?df3"
      by (simp add: map_col_absent map_idI)
    with False show ?thesis by (simp add: coerce_frame_def Let_def)
  qed
  have "map_col Minuts_sense_gols ?g
          (map (\<lambda>(n, v). (n, if n \<in> set numeric_cols_float then cast_float64 v else v))
            (map (\<lambda>(n, v). (n, if n \<in> set numeric_cols_int then cast_int64 v else v)) r)) =
        coerce_row r" for r
    unfolding coerce_row_def map_col_def
    by (simp add: case_prod_beta comp_def three_passes[unfolded Let_def, symmetric])
  then show ?thesis
    by (simp add: r4 r3 r2 comp_def)
qed

lemma load_players_rows:
  assumes "read_csv f = Inr df"
    and "''Jugador'' \<in> set (columns df)" "''Partits'' \<in> set (columns df)"
  shows "\<exists>df'. load_players f = Inr df' \<and> columns df' = columns df \<and>
           rows df' = map coerce_row (filter retained (rows df))"
proof -
  let ?df1 = "df\<lparr>rows := filter (\<lambda>r. col_val r ''Jugador'' \<noteq> Null) (rows df)\<rparr>"
  have c1: "columns ?df1 = columns df" by (simp add: columns_def)
  have k1: "keyed ?df1"
    using read_csv_keyed[OF assms(1)] unfolding keyed_def c1 by auto
  have f1: "filter_not_null df ''Jugador'' = Inr ?df1"
    using assms(2) by (simp add: filter_not_null_def)
  have body: "load_players f = filter_not_null (coerce_frame ?df1) ''Partits''"
    by (simp add: load_players_def assms(1) f1 bindE_def coerce_frame_def Let_def)
  have p: "''Partits'' \<in> set (columns (coerce_frame ?df1))"
    using assms(3) by (simp add: coerce_frame_columns c1)
  have "filter (\<lambda>r. col_val r ''Partits'' \<noteq> Null)
          (map coerce_row (filter (\<lambda>r. col_val r ''Jugador'' \<noteq> Null) (rows df))) =
        map coerce_row (filter retained (rows df))"
    by (simp add: filter_map comp_def col_val_coerce_row_Partits retained_def[abs_def])
  moreover have "columns (X\<lparr>rows := rs\<rparr>) = columns X" for X :: DataFrame and rs
    by (simp add: columns_def)
  ultimately show ?thesis
    unfolding body filter_not_null_def
    using p by (simp add: coerce_frame_rows[OF k1] coerce_frame_columns c1)
qed

lemma load_players_Inr:
  assumes "load_players f = Inr df'"
  shows "\<exists>df. read_csv f = Inr df \<and> ''Jugador'' \<in> set (columns df) \<and> ''Partits'' \<in> set (columns df)"
proof -
  from assms obtain df where rd: "read_csv f = Inr df"
    by (auto simp: load_players_def bindE_def split: sum.splits)
  let ?df1 = "df\<lparr>rows := filter (\<lambda>r. col_val r ''Jugador'' \<noteq> Null) (rows df)\<rparr>"
  have c1: "columns ?df1 = columns df" by (simp add: columns_def)
  from assms rd have j: "''Jugador'' \<in> set (columns df)"
    by (auto simp: load_players_def bindE_def filter_not_null_def split: if_splits)
  then have f1: "filter_not_null df ''Jugador'' = Inr ?df1"
    by (simp add: filter_not_null_def)
  from assms have "filter_not_null (coerce_frame ?df1) ''Partits'' = Inr df'"
    by (simp add: load_players_def rd f1 bindE_def coerce_frame_def Let_def)
  then have "''Partits'' \<in> set (columns (coerce_frame ?df1))"
    by (auto simp: filter_not_null_def split: if_splits)
  then have "''Partits'' \<in> set (columns df)"
    by (simp add: coerce_frame_columns c1)
  with rd j show ?thesis by blast
qed

lemma round2_Null_iff: "round2 v = Null \<longleftrightarrow> v = Null"
  by (cases v rule: round2.cases) auto

lemma col_val_round_row:
  "col_val (map (\<lambda>(n, v). (n, if P n then round2 v else v)) r) c = Null
     \<longleftrightarrow> col_val r c = Null"
  by (induction r) (auto simp: col_val_def round2_Null_iff split: if_splits)

lemma round_df_not_null:
  "r' \<in> set (rows (round_df df)) \<Longrightarrow> \<exists>r\<in>set (rows df). (col_val r' c = Null \<longleftrightarrow> col_val r c = Null)"
  by (auto simp: round_df_def col_val_round_row)

lemma load_data_players:
  "fst (load_data fp fw) =
     round_df (case load_players fp of Inr df \<Rightarrow> df | Inl e \<Rightarrow> empty_frame)"
  by (simp add: load_data_def Let_def split: sum.splits prod.splits)

lemmas parse_defs = parse_int_def parse_float_def parse_decimal_def all_digits_def is_digit_def
  digits_val_def lower_code_def same_word_def replace_comma_def in_int64_def

lemma trunc_numeral: "trunc (numeral k) = numeral k"
  by (simp add: trunc_def)

lemma col_val_round_row_fixed:
  "round2 (col_val r c) = col_val r c \<Longrightarrow>
   col_val (map (\<lambda>(n, v). (n, if P n then round2 v else v)) r) c = col_val r c"
  by (induction r) (auto simp: col_val_def split: if_splits)

lemma rows_round_df:
  "rows (round_df df) =
     map (map (\<lambda>(n, v). (n, if map_of (schema df) n = Some Float64 then round2 v else v))) (rows df)"
  by (simp add: round_df_def)

lemma coerce_minutes_too_large: "coerce Minuts_sense_gols (StrV ''1e30'') = Null"
  by (simp add: coerce_def replace_comma_def parse_defs fill_null_0_def trunc_numeral)

lemma coerce_minutes_special:
  "coerce Minuts_sense_gols (StrV ''inf'') = Null"
  "coerce Minuts_sense_gols (StrV ''NaN'') = Null"
  by (simp_all add: coerce_def replace_comma_def parse_defs fill_null_0_def)

lemma coerce_minutes_zero:
  "coerce Minuts_sense_gols Null = IntV 0"
  "coerce Minuts_sense_gols (StrV ''n/a'') = IntV 0"
  by (simp_all add: coerce_def replace_comma_def parse_defs fill_null_0_def trunc_def)

lemma coerce_minutes_float_numeral:
  "coerce Minuts_sense_gols (FloatV (Fin (numeral k))) =
     (if in_int64 (numeral k) then IntV (numeral k) else Null)"
  by (simp add: coerce_def fill_null_0_def trunc_numeral)

lemma round2_cast_int64: "round2 (cast_int64 v) = cast_int64 v"
  by (cases v rule: cast_int64.cases) (simp_all split: option.splits)

lemma round2_coerce_minutes: "round2 (coerce Minuts_sense_gols v) = coerce Minuts_sense_gols v"
  by (simp add: coerce_def round2_cast_int64)

lemma read_minutes_csv:
  assumes "parse_cell dt raw = Inr v"
  shows "read_csv (Some (minutes_csv dt raw)) =
     Inr \<lparr>schema = [(''Jugador'', Utf8), (''Partits'', Int64), (Minuts_sense_gols, dt)],
          rows = [[(''Jugador'', StrV ''SANCHEZ LAYA, PAU''), (''Partits'', IntV 5),
                   (Minuts_sense_gols, v)]]\<rparr>"
proof -
  have "parse_cell Utf8 ''SANCHEZ LAYA, PAU'' = Inr (StrV ''SANCHEZ LAYA, PAU'')"
    "parse_cell Int64 ''5'' = Inr (IntV 5)"
    by (simp_all add: parse_cell_def null_values_def parse_defs)
  then show ?thesis
    by (simp add: minutes_csv_def read_csv_def bindE_def assms)
qed

text \<open>The minutes the loader returns for that file are the coerced cell, null or not.\<close>

lemma minutes_loaded:
  assumes "parse_cell dt raw = Inr v"
  shows "map (\<lambda>r. (col_val r ''Jugador'', col_val r Minuts_sense_gols))
           (rows (fst (load_data (Some (minutes_csv dt raw)) None))) =
         [(StrV ''SANCHEZ LAYA, PAU'', coerce Minuts_sense_gols v)]"
proof -
  let ?df = "\<lparr>schema = [(''Jugador'', Utf8), (''Partits'', Int64), (Minuts_sense_gols, dt)],
          rows = [[(''Jugador'', StrV ''SANCHEZ LAYA, PAU''), (''Partits'', IntV 5),
                   (Minuts_sense_gols, v)]]\<rparr>"
  have "\<exists>df'. load_players (Some (minutes_csv dt raw)) = Inr df' \<and> columns df' = columns ?df \<and>
           rows df' = map coerce_row (filter retained (rows ?df))"
    by (rule load_players_rows[OF read_minutes_csv[OF assms]]) (simp_all add: columns_def)
  then obtain df' where l: "load_players (Some (minutes_csv dt raw)) = Inr df'"
    and r: "rows df' = map coerce_row (filter retained (rows ?df))" by blast
  have r': "rows df' = [[(''Jugador'', StrV ''SANCHEZ LAYA, PAU''), (''Partits'', IntV 5),
                   (Minuts_sense_gols, coerce Minuts_sense_gols v)]]"
    unfolding r
    by (simp add: retained_def col_val_def coerce_row_def coerce_Jugador coerce_Partits)
  have m: "Minuts_sense_gols \<noteq> ''Jugador''" "Minuts_sense_gols \<noteq> ''Partits''"
    by (simp_all add: Minuts_sense_gols_def)
  show ?thesis
    unfolding load_data_players l
    using m by (simp add: rows_round_df r' col_val_def round2_coerce_minutes)
qed

text \<open>
  Claim C7 holds that the minutes without conceding of every retained player are a
  well-defined integer, whatever the raw field. The loader fills a null with 0 and then
  casts to an integer without strictness, so a field that reads as a float with no 64-bit
  integer (out of range as here, an infinity, NaN) becomes null after the fill: the
  goalkeeper of the file is retained and the minutes are null, whether the reader takes
  the column as floats or as text.
\<close>

theorem C7_minutes_null:
  "map (\<lambda>r. (col_val r ''Jugador'', col_val r Minuts_sense_gols))
       (rows (fst (load_data (Some (minutes_csv Float64 ''1e30'')) None))) =
     [(StrV ''SANCHEZ LAYA, PAU'', Null)] \<and>
   map (\<lambda>r. (col_val r ''Jugador'', col_val r Minuts_sense_gols))
       (rows (fst (load_data (Some (minutes_csv Utf8 ''1e30'')) None))) =
     [(StrV ''SANCHEZ LAYA, PAU'', Null)] \<and>
   map (\<lambda>r. (col_val r ''Jugador'', col_val r Minuts_sense_gols))
       (rows (fst (load_data (Some (minutes_csv Utf8 ''NaN'')) None))) =
     [(StrV ''SANCHEZ LAYA, PAU'', Null)] \<and>
   map (\<lambda>r. (col_val r ''Jugador'', col_val r Minuts_sense_gols))
       (rows (fst (load_data (Some (minutes_csv Utf8 ''n/a'')) None))) =
     [(StrV ''SANCHEZ LAYA, PAU'', IntV 0)]"
proof -
  have "parse_cell Float64 ''1e30'' = Inr (FloatV (Fin (10 ^ 30)))"
    "parse_cell Utf8 ''1e30'' = Inr (StrV ''1e30'')"
    "parse_cell Utf8 ''NaN'' = Inr (StrV ''NaN'')"
    "parse_cell Utf8 ''n/a'' = Inr (StrV ''n/a'')"
    by (simp_all add: parse_cell_def null_values_def parse_defs)
  then show ?thesis
    by (simp add: minutes_loaded coerce_minutes_float_numeral in_int64_def
        coerce_minutes_too_large coerce_minutes_special coerce_minutes_zero)
qed

lemma read_players_csv: "read_csv (Some players_csv) = Inr players_read"
  by (simp add: players_csv_def players_read_def read_csv_def parse_cell_def null_values_def
      bindE_def parse_defs)

lemma players_read_columns:
  "''Jugador'' \<in> set (columns players_read)" "''Partits'' \<in> set (columns players_read)"
  by (simp_all add: players_read_def columns_def)

lemma players_read_kept:
  "map coerce_row (filter retained (rows players_read)) =
     [[(''Jugador'', StrV ''RAS JIMENEZ, BLAI''), (''Partits'', IntV 3), (''Gols'', Null),
       (''Win Rate'', FloatV (Fin 3.5)), (Minuts_sense_gols, IntV 0)]]"
  by (simp add: players_read_def retained_def col_val_def coerce_row_def coerce_def
      numeric_cols_int_def numeric_cols_float_def Assistencies_def Assitencies_x_partit_def
      Minuts_sense_gols_def parse_defs fill_null_0_def trunc_def)













text \<open>
  Claim C10. Every player row that \<^verbatim>\<open>load_data\<close> returns has a name. The rows of a loaded
  table are the rows as read that have a name and a matches-played cell that casts to an
  integer, so a row without a name is dropped whatever its matches played, and the name is
  judged on the cell as read, before any coercion. The error token and the empty field are
  read as null at every dtype.
\<close>

theorem C10_name_required:
  "(\<forall>r\<in>set (rows (fst (load_data csv_players csv_weeks))). col_val r ''Jugador'' \<noteq> Null) \<and>
   (\<forall>df df'. read_csv csv_players = Inr df \<and> load_players csv_players = Inr df' \<longrightarrow>
      rows df' = map coerce_row
        (filter (\<lambda>r. col_val r ''Jugador'' \<noteq> Null \<and> cast_int64 (col_val r ''Partits'') \<noteq> Null)
           (rows df))) \<and>
   (\<forall>dt. parse_cell dt ''#DIV/0!'' = Inr Null \<and> parse_cell dt [] = Inr Null)"
proof (intro conjI ballI allI impI)
  fix r assume r: "r \<in> set (rows (fst (load_data csv_players csv_weeks)))"
  show "col_val r ''Jugador'' \<noteq> Null"
  proof (cases "load_players csv_players")
    case (Inl e)
    with r show ?thesis
      by (simp add: load_data_players round_df_def empty_frame_def)
  next
    case (Inr df')
    from load_players_Inr[OF Inr] obtain df where "read_csv csv_players = Inr df"
      "''Jugador'' \<in> set (columns df)" "''Partits'' \<in> set (columns df)" by blast
    from load_players_rows[OF this] Inr
    have rows: "rows df' = map coerce_row (filter retained (rows df))" by simp
    from r Inr have "r \<in> set (rows (round_df df'))"
      by (simp add: load_data_players)
    from round_df_not_null[OF this, of "''Jugador''"]
    obtain r1 where r1: "r1 \<in> set (rows df')"
      "col_val r ''Jugador'' = Null \<longleftrightarrow> col_val r1 ''Jugador'' = Null" by blast
    from r1(1) rows obtain r0 where "retained r0" "r1 = coerce_row r0" by auto
    then have "col_val r1 ''Jugador'' \<noteq> Null"
      by (simp add: col_val_coerce_row_Jugador retained_def)
    with r1(2) show ?thesis by simp
  qed
next
  fix df df' assume a: "read_csv csv_players = Inr df \<and> load_players csv_players = Inr df'"
  from load_players_Inr[of csv_players df'] a
  have "''Jugador'' \<in> set (columns df)" "''Partits'' \<in> set (columns df)" by auto
  from load_players_rows[OF _ this, of csv_players] a
  show "rows df' = map coerce_row
        (filter (\<lambda>r. col_val r ''Jugador'' \<noteq> Null \<and> cast_int64 (col_val r ''Partits'') \<noteq> Null)
           (rows df))"
    by (simp add: retained_def[abs_def])
qed (simp_all add: parse_cell_def null_values_def)

theorem C10_name_required_witness:
  "read_csv (Some players_csv) = Inr players_read \<and>
   map (\<lambda>r. col_val r ''Jugador'') (rows players_read) =
     [StrV ''RAS JIMENEZ, BLAI'', Null, Null, StrV ''VIDAL, ADRIA''] \<and>
   map (\<lambda>r. cast_int64 (col_val r ''Partits'')) (rows players_read) =
     [IntV 3, IntV 7, IntV 7, Null] \<and>
   (\<exists>df'. load_players (Some players_csv) = Inr df' \<and>
      map (\<lambda>r. col_val r ''Jugador'') (rows df') = [StrV ''RAS JIMENEZ, BLAI'']) \<and>
   list_all (\<lambda>r. col_val r ''Jugador'' \<noteq> Null)
     (rows (fst (load_data (Some players_csv) None)))"
proof -
  from load_players_rows[OF read_players_csv players_read_columns]
  obtain df' where l: "load_players (Some players_csv) = Inr df'"
    and r: "rows df' = map coerce_row (filter retained (rows players_read))" by blast
  have a: "map (\<lambda>r. col_val r ''Jugador'') (rows players_read) =
     [StrV ''RAS JIMENEZ, BLAI'', Null, Null, StrV ''VIDAL, ADRIA'']"
    by (simp add: players_read_def col_val_def)
  have b: "map (\<lambda>r. cast_int64 (col_val r ''Partits'')) (rows players_read) =
     [IntV 3, IntV 7, IntV 7, Null]"
    by (simp add: players_read_def col_val_def parse_defs)
  have c: "map (\<lambda>r. col_val r ''Jugador'') (rows df') = [StrV ''RAS JIMENEZ, BLAI'']"
    by (simp add: r players_read_kept col_val_def)
  from C10_name_required[of "Some players_csv" None]
  have "list_all (\<lambda>r. col_val r ''Jugador'' \<noteq> Null)
     (rows (fst (load_data (Some players_csv) None)))"
    by (simp add: list_all_iff)
  with a b c l show ?thesis
    by (simp add: read_players_csv)
qed

section \<open>The leaderboard\<close>

text \<open>The first row of a descending sort of rows with a value holds a greatest value.\<close>

lemma top_row_greatest:
  assumes "sort_rows c True rs = t # rest" and "\<forall>r\<in>set rs. col_val r c \<noteq> Null"
    and "r \<in> set rs"
  shows "t \<in> set rs \<and> cell_le (col_val r c) (col_val t c)"
proof -
  have s: "set (t # rest) = set rs"
    using set_sort_rows[of c True rs] assms(1) by simp
  then have t: "t \<in> set rs" by auto
  have "sorted_wrt (\<lambda>a b. sort_le True (col_val a c) (col_val b c)) (t # rest)"
    using sorted_sort_rows[of True c rs] assms(1) by simp
  then have "\<forall>x\<in>set rest. sort_le True (col_val t c) (col_val x c)" by simp
  moreover from s assms(3) have "r = t \<or> r \<in> set rest" by auto
  moreover have "cell_le (col_val t c) (col_val t c)"
    using cell_le_total by blast
  ultimately have "sort_le True (col_val t c) (col_val r c) \<or> (r = t)"
    by blast
  with assms(2,3) t \<open>cell_le (col_val t c) (col_val t c)\<close> show ?thesis
    by (auto simp: sort_le_def split: if_splits)
qed

lemma get_top_player_None:
  assumes "get_top_player df col lbl suffix = Inr None"
  shows "\<forall>r\<in>set (rows df). \<not> eligible col r"
  using assms
  by (auto simp: get_top_player_def filter_not_null_def bindE_def height_def sort_frame_def
      eligible_def filter_empty_conv
      split: if_splits sum.splits list.splits)

lemma get_top_player_Some:
  assumes "get_top_player df col lbl suffix = Inr (Some e)"
  shows "\<exists>t\<in>set (rows df). eligible col t \<and> name e = col_val t ''Jugador'' \<and>
           val e = Plain (col_val t col) suffix \<and> label e = lbl \<and>
           (\<forall>r\<in>set (rows df). eligible col r \<longrightarrow> cell_le (col_val r col) (col_val t col))"
proof -
  let ?valid = "filter (\<lambda>r. col_val r col \<noteq> Null) (rows df)"
  from assms obtain t rest n v where srt: "sort_rows col True ?valid = t # rest"
    and n: "row_get t ''Jugador'' = Inr n" and v: "row_get t col = Inr v"
    and e: "e = \<lparr>name = n, val = Plain v suffix, label = lbl\<rparr>"
    by (auto simp: get_top_player_def filter_not_null_def bindE_def height_def sort_frame_def
        columns_def split: if_splits sum.splits list.splits)
  have nv: "n = col_val t ''Jugador''" "v = col_val t col"
    using n v by (auto simp: row_get_def col_val_def split: option.splits)
  have all: "\<forall>r\<in>set ?valid. col_val r col \<noteq> Null" by simp
  have "t \<in> set ?valid"
    using set_sort_rows[of col True ?valid] srt by (metis list.set_intros(1))
  moreover have "cell_le (col_val r col) (col_val t col)" if "r \<in> set (rows df)" "eligible col r" for r
    using top_row_greatest[OF srt all, of r] that by (simp add: eligible_def)
  ultimately show ?thesis
    using e nv by (auto simp: eligible_def)
qed

lemma top_win_rate_None:
  assumes "top_win_rate df = Inr None"
  shows "\<forall>r\<in>set (rows df). \<not> eligible ''Win Rate'' r"
  using assms
  by (auto simp: top_win_rate_def filter_not_null_def bindE_def height_def sort_frame_def
      eligible_def filter_empty_conv
      split: if_splits sum.splits list.splits)

lemma top_win_rate_Some:
  assumes "top_win_rate df = Inr (Some e)"
  shows "\<exists>t\<in>set (rows df). eligible ''Win Rate'' t \<and> name e = col_val t ''Jugador'' \<and>
           shown (val e) = col_val t ''Win Rate'' \<and>
           (\<forall>r\<in>set (rows df). eligible ''Win Rate'' r \<longrightarrow>
               cell_le (col_val r ''Win Rate'') (col_val t ''Win Rate''))"
proof -
  let ?valid = "filter (\<lambda>r. col_val r ''Win Rate'' \<noteq> Null) (rows df)"
  from assms obtain t rest n v where srt: "sort_rows ''Win Rate'' True ?valid = t # rest"
    and n: "row_get t ''Jugador'' = Inr n" and v: "row_get t ''Win Rate'' = Inr v"
    and e: "name e = n" "shown (val e) = v"
    by (auto simp: top_win_rate_def filter_not_null_def bindE_def height_def sort_frame_def
        columns_def shown_def split: if_splits sum.splits list.splits cell.splits)
  have nv: "n = col_val t ''Jugador''" "v = col_val t ''Win Rate''"
    using n v by (auto simp: row_get_def col_val_def split: option.splits)
  have all: "\<forall>r\<in>set ?valid. col_val r ''Win Rate'' \<noteq> Null" by simp
  have "t \<in> set ?valid"
    using set_sort_rows[of "''Win Rate''" True ?valid] srt by (metis list.set_intros(1))
  moreover have "cell_le (col_val r ''Win Rate'') (col_val t ''Win Rate'')"
    if "r \<in> set (rows df)" "eligible ''Win Rate'' r" for r
    using top_row_greatest[OF srt all, of r] that by (simp add: eligible_def)
  ultimately show ?thesis
    using e nv by (auto simp: eligible_def)
qed

lemmas top_defs = get_top_player_def filter_not_null_def bindE_def height_def sort_frame_def
  columns_def sort_rows_def sort_le_def col_val_def row_get_def

lemma top_goals:
  "get_top_player players_goals ''Gols'' lbl [] =
     Inr (Some \<lparr>name = StrV ''B'', val = Plain (IntV 9) [], label = lbl\<rparr>)"
  by (simp add: players_goals_def top_defs)

lemma ratio_values:
  "grogues_ratio (IntV 0) (IntV 0) = FloatV (Fin 0)"
  "grogues_ratio (IntV 2) (IntV 4) = FloatV (Fin 0.5)"
  "grogues_ratio (IntV 0) (IntV 5) = FloatV (Fin 0)"
  "grogues_ratio (IntV 2) (IntV 0) = FloatV PInf"
  "grogues_ratio (IntV 2) Null = Null"
  by (simp_all add: grogues_ratio_def)

lemma leaderboard_players_frame:
  "map (\<lambda>e. (name e, val e)) (case leaderboard players_frame of Inr lb \<Rightarrow> lb | Inl _ \<Rightarrow> []) =
     [(StrV ''A'', Plain (IntV 5) []),
      (StrV ''A'', Plain (FloatV (Fin 1.25)) []),
      (StrV ''A'', Plain (IntV 1) []),
      (StrV ''A'', Plain (FloatV (Fin 0.25)) []),
      (StrV ''C'', Plain (IntV 90) [CHR 0x27]),
      (StrV ''C'', Percent (FloatV (Fin 0.75))),
      (StrV ''B'', Fixed2 (FloatV PInf))]"
  by (simp add: leaderboard_def players_frame_def top_defs top_win_rate_def
      with_grogues_ratio_def set_column_def map_col_def grogues_ratio_def shown_def opt_list_def
      Assistencies_def Assitencies_x_partit_def Minuts_sense_gols_def)

lemma get_top_player_no_eligible:
  assumes "col \<in> set (columns df)" "\<forall>r\<in>set (rows df). \<not> eligible col r"
  shows "get_top_player df col lbl suffix = Inr None"
proof -
  from assms(2) have "filter (\<lambda>r. col_val r col \<noteq> Null) (rows df) = []"
    by (simp add: eligible_def filter_empty_conv)
  with assms(1) show ?thesis
    by (simp add: get_top_player_def filter_not_null_def bindE_def height_def)
qed

lemma bindE_Inr: "bindE m f = Inr y \<Longrightarrow> \<exists>x. m = Inr x \<and> f x = Inr y"
  by (cases m) (simp_all add: bindE_def)

lemma leaderboard_first_six:
  assumes "leaderboard df = Inr lb"
  shows "\<exists>m1 m2 m3 m4 m5 m6 rest.
     get_top_player df ''Gols'' (''M'' @ [CHR 0xC3, CHR 0xA0] @ ''xim Golejador'') [] = Inr m1 \<and>
     get_top_player df ''Gols x partit'' ''Gols / Partit'' [] = Inr m2 \<and>
     get_top_player df Assistencies (''M'' @ [CHR 0xC3, CHR 0xA0] @ ''xim Assistent'') [] = Inr m3 \<and>
     get_top_player df Assitencies_x_partit ''Ass. / Partit'' [] = Inr m4 \<and>
     get_top_player df Minuts_sense_gols ''Millor Porter (Minuts imbatut)'' [CHR 0x27] = Inr m5 \<and>
     top_win_rate df = Inr m6 \<and>
     lb = opt_list m1 @ opt_list m2 @ opt_list m3 @ opt_list m4 @ opt_list m5 @ opt_list m6 @ rest"
proof -
  from assms[unfolded leaderboard_def]
  obtain m1 where m1: "get_top_player df ''Gols'' (''M'' @ [CHR 0xC3, CHR 0xA0] @ ''xim Golejador'') [] = Inr m1"
    and k1: "bindE (get_top_player df ''Gols x partit'' ''Gols / Partit'' []) (\<lambda>top_scorer_pg.
     bindE (get_top_player df Assistencies
              (''M'' @ [CHR 0xC3, CHR 0xA0] @ ''xim Assistent'') []) (\<lambda>top_assistant.
     bindE (get_top_player df Assitencies_x_partit ''Ass. / Partit'' []) (\<lambda>top_assistant_pg.
     bindE (get_top_player df Minuts_sense_gols
              ''Millor Porter (Minuts imbatut)'' [CHR 0x27]) (\<lambda>top_gk.
     bindE (top_win_rate df) (\<lambda>top_wr.
     bindE (with_grogues_ratio df) (\<lambda>df_ratio.
     bindE (get_top_player df_ratio ''Grogues_Ratio'' ''Major % Grogues/Partit'' []) (\<lambda>top_yellow.
     bindE (case top_yellow of
              None \<Rightarrow> Inr []
            | Some e \<Rightarrow>
                bindE (float_positive (shown (val e))) (\<lambda>pos.
                  Inr (if pos then [e\<lparr>val := Fixed2 (shown (val e))\<rparr>] else []))) (\<lambda>yellow.
     bindE (get_top_player df_ratio ''Vermelles''
              (''M'' @ [CHR 0xC3, CHR 0xA9] @ ''s Targetes Vermelles'') []) (\<lambda>top_red.
     bindE (case top_red of
              None \<Rightarrow> Inr []
            | Some e \<Rightarrow>
                bindE (int_positive (shown (val e))) (\<lambda>pos. Inr (if pos then [e] else []))) (\<lambda>red.
       Inr (opt_list m1 @ opt_list top_scorer_pg @ opt_list top_assistant @
            opt_list top_assistant_pg @ opt_list top_gk @ opt_list top_wr @ yellow @ red))))))))))) = Inr lb"
    by (blast dest: bindE_Inr)
  from bindE_Inr[OF k1] obtain m2 where m2: "get_top_player df ''Gols x partit'' ''Gols / Partit'' [] = Inr m2"
    and k2: "bindE (get_top_player df Assistencies
              (''M'' @ [CHR 0xC3, CHR 0xA0] @ ''xim Assistent'') []) (\<lambda>top_assistant.
     bindE (get_top_player df Assitencies_x_partit ''Ass. / Partit'' []) (\<lambda>top_assistant_pg.
     bindE (get_top_player df Minuts_sense_gols
              ''Millor Porter (Minuts imbatut)'' [CHR 0x27]) (\<lambda>top_gk.
     bindE (top_win_rate df) (\<lambda>top_wr.
     bindE (with_grogues_ratio df) (\<lambda>df_ratio.
     bindE (get_top_player df_ratio ''Grogues_Ratio'' ''Major % Grogues/Partit'' []) (\<lambda>top_yellow.
     bindE (case top_yellow of
              None \<Rightarrow> Inr []
            | Some e \<Rightarrow>
                bindE (float_positive (shown (val e))) (\<lambda>pos.
                  Inr (if pos then [e\<lparr>val := Fixed2 (shown (val e))\<rparr>] else []))) (\<lambda>yellow.
     bindE (get_top_player df_ratio ''Vermelles''
              (''M'' @ [CHR 0xC3, CHR 0xA9] @ ''s Targetes Vermelles'') []) (\<lambda>top_red.
     bindE (case top_red of
              None \<Rightarrow> Inr []
            | Some e \<Rightarrow>
                bindE (int_positive (shown (val e))) (\<lambda>pos. Inr (if pos then [e] else []))) (\<lambda>red.
       Inr (opt_list m1 @ opt_list m2 @ opt_list top_assistant @
            opt_list top_assistant_pg @ opt_list top_gk @ opt_list top_wr @ yellow @ red)))))))))) = Inr lb"
    by blast
  from bindE_Inr[OF k2] obtain m3 where m3: "get_top_player df Assistencies
              (''M'' @ [CHR 0xC3, CHR 0xA0] @ ''xim Assistent'') [] = Inr m3"
    and k3: "bindE (get_top_player df Assitencies_x_partit ''Ass. / Partit'' []) (\<lambda>top_assistant_pg.
     bindE (get_top_player df Minuts_sense_gols
              ''Millor Porter (Minuts imbatut)'' [CHR 0x27]) (\<lambda>top_gk.
     bindE (top_win_rate df) (\<lambda>top_wr.
     bindE (with_grogues_ratio df) (\<lambda>df_ratio.
     bindE (get_top_player df_ratio ''Grogues_Ratio'' ''Major % Grogues/Partit'' []) (\<lambda>top_yellow.
     bindE (case top_yellow of
              None \<Rightarrow> Inr []
            | Some e \<Rightarrow>
                bindE (float_positive (shown (val e))) (\<lambda>pos.
                  Inr (if pos then [e\<lparr>val := Fixed2 (shown (val e))\<rparr>] else []))) (\<lambda>yellow.
     bindE (get_top_player df_ratio ''Vermelles''
              (''M'' @ [CHR 0xC3, CHR 0xA9] @ ''s Targetes Vermelles'') []) (\<lambda>top_red.
     bindE (case top_red of
              None \<Rightarrow> Inr []
            | Some e \<Rightarrow>
                bindE (int_positive (shown (val e))) (\<lambda>pos. Inr (if pos then [e] else []))) (\<lambda>red.
       Inr (opt_list m1 @ opt_list m2 @ opt_list m3 @
            opt_list top_assistant_pg @ opt_list top_gk @ opt_list top_wr @ yellow @ red))))))))) = Inr lb"
    by blast
  from bindE_Inr[OF k3] obtain m4 where m4: "get_top_player df Assitencies_x_partit ''Ass. / Partit'' [] = Inr m4"
    and k4: "bindE (get_top_player df Minuts_sense_gols
              ''Millor Porter (Minuts imbatut)'' [CHR 0x27]) (\<lambda>top_gk.
     bindE (top_win_rate df) (\<lambda>top_wr.
     bindE (with_grogues_ratio df) (\<lambda>df_ratio.
     bindE (get_top_player df_ratio ''Grogues_Ratio'' ''Major % Grogues/Partit'' []) (\<lambda>top_yellow.
     bindE (case top_yellow of
              None \<Rightarrow> Inr []
            | Some e \<Rightarrow>
                bindE (float_positive (shown (val e))) (\<lambda>pos.
                  Inr (if pos then [e\<lparr>val := Fixed2 (shown (val e))\<rparr>] else []))) (\<lambda>yellow.
     bindE (get_top_player df_ratio ''Vermelles''
              (''M'' @ [CHR 0xC3, CHR 0xA9] @ ''s Targetes Vermelles'') []) (\<lambda>top_red.
     bindE (case top_red of
              None \<Rightarrow> Inr []
            | Some e \<Rightarrow>
                bindE (int_positive (shown (val e))) (\<lambda>pos. Inr (if pos then [e] else []))) (\<lambda>red.
       Inr (opt_list m1 @ opt_list m2 @ opt_list m3 @
            opt_list m4 @ opt_list top_gk @ opt_list top_wr @ yellow @ red)))))))) = Inr lb"
    by blast
  from bindE_Inr[OF k4] obtain m5 where m5: "get_top_player df Minuts_sense_gols
              ''Millor Porter (Minuts imbatut)'' [CHR 0x27] = Inr m5"
    and k5: "bindE (top_win_rate df) (\<lambda>top_wr.
     bindE (with_grogues_ratio df) (\<lambda>df_ratio.
     bindE (get_top_player df_ratio ''Grogues_Ratio'' ''Major % Grogues/Partit'' []) (\<lambda>top_yellow.
     bindE (case top_yellow of
              None \<Rightarrow> Inr []
            | Some e \<Rightarrow>
                bindE (float_positive (shown (val e))) (\<lambda>pos.
                  Inr (if pos then [e\<lparr>val := Fixed2 (shown (val e))\<rparr>] else []))) (\<lambda>yellow.
     bindE (get_top_player df_ratio ''Vermelles''
              (''M'' @ [CHR 0xC3, CHR 0xA9] @ ''s Targetes Vermelles'') []) (\<lambda>top_red.
     bindE (case top_red of
              None \<Rightarrow> Inr []
            | Some e \<Rightarrow>
                bindE (int_positive (shown (val e))) (\<lambda>pos. Inr (if pos then [e] else []))) (\<lambda>red.
       Inr (opt_list m1 @ opt_list m2 @ opt_list m3 @
            opt_list m4 @ opt_list m5 @ opt_list top_wr @ yellow @ red))))))) = Inr lb"
    by blast
  from bindE_Inr[OF k5] obtain m6 where m6: "top_win_rate df = Inr m6"
    and k6: "bindE (with_grogues_ratio df) (\<lambda>df_ratio.
     bindE (get_top_player df_ratio ''Grogues_Ratio'' ''Major % Grogues/Partit'' []) (\<lambda>top_yellow.
     bindE (case top_yellow of
              None \<Rightarrow> Inr []
            | Some e \<Rightarrow>
                bindE (float_positive (shown (val e))) (\<lambda>pos.
                  Inr (if pos then [e\<lparr>val := Fixed2 (shown (val e))\<rparr>] else []))) (\<lambda>yellow.
     bindE (get_top_player df_ratio ''Vermelles''
              (''M'' @ [CHR 0xC3, CHR 0xA9] @ ''s Targetes Vermelles'') []) (\<lambda>top_red.
     bindE (case top_red of
              None \<Rightarrow> Inr []
            | Some e \<Rightarrow>
                bindE (int_positive (shown (val e))) (\<lambda>pos. Inr (if pos then [e] else []))) (\<lambda>red.
       Inr (opt_list m1 @ opt_list m2 @ opt_list m3 @
            opt_list m4 @ opt_list m5 @ opt_list m6 @ yellow @ red)))))) = Inr lb"
    by blast
  from k6 obtain yellow red where
    "lb = opt_list m1 @ opt_list m2 @ opt_list m3 @ opt_list m4 @ opt_list m5 @ opt_list m6 @ yellow @ red"
    by (auto dest!: bindE_Inr)
  with m1 m2 m3 m4 m5 m6 show ?thesis by blast
qed

text \<open>
  Claim C9. \<^verbatim>\<open>get_top_player\<close> gives no entry exactly when no player has a value in the
  column (the column being there); an entry it gives names a player with a value, shows
  that value, and no player with a value has a greater one in the order of the engine's
  sort. The same holds of the selection on the win rate. The first six entries of the
  leaderboard are, in order, the entries of the selections on goals, goals per match,
  assists, assists per match, minutes without conceding and win rate, each left out when
  its selection gives none.
\<close>

theorem C9_top_player:
  "(get_top_player df col lbl suffix = Inr None \<longrightarrow> (\<forall>r\<in>set (rows df). \<not> eligible col r)) \<and>
   (col \<in> set (columns df) \<and> (\<forall>r\<in>set (rows df). \<not> eligible col r) \<longrightarrow>
      get_top_player df col lbl suffix = Inr None) \<and>
   (get_top_player df col lbl suffix = Inr (Some e) \<longrightarrow>
      (\<exists>t\<in>set (rows df). eligible col t \<and> name e = col_val t ''Jugador'' \<and>
         val e = Plain (col_val t col) suffix \<and> label e = lbl \<and>
         (\<forall>r\<in>set (rows df). eligible col r \<longrightarrow> cell_le (col_val r col) (col_val t col)))) \<and>
   (top_win_rate df = Inr None \<longrightarrow> (\<forall>r\<in>set (rows df). \<not> eligible ''Win Rate'' r)) \<and>
   (top_win_rate df = Inr (Some e) \<longrightarrow>
      (\<exists>t\<in>set (rows df). eligible ''Win Rate'' t \<and> name e = col_val t ''Jugador'' \<and>
         shown (val e) = col_val t ''Win Rate'' \<and>
         (\<forall>r\<in>set (rows df). eligible ''Win Rate'' r \<longrightarrow>
            cell_le (col_val r ''Win Rate'') (col_val t ''Win Rate'')))) \<and>
   (leaderboard df = Inr lb \<longrightarrow>
      (\<exists>m1 m2 m3 m4 m5 m6 rest.
         get_top_player df ''Gols'' (''M'' @ [CHR 0xC3, CHR 0xA0] @ ''xim Golejador'') [] = Inr m1 \<and>
         get_top_player df ''Gols x partit'' ''Gols / Partit'' [] = Inr m2 \<and>
         get_top_player df Assistencies (''M'' @ [CHR 0xC3, CHR 0xA0] @ ''xim Assistent'') [] = Inr m3 \<and>
         get_top_player df Assitencies_x_partit ''Ass. / Partit'' [] = Inr m4 \<and>
         get_top_player df Minuts_sense_gols ''Millor Porter (Minuts imbatut)'' [CHR 0x27] = Inr m5 \<and>
         top_win_rate df = Inr m6 \<and>
         lb = opt_list m1 @ opt_list m2 @ opt_list m3 @ opt_list m4 @ opt_list m5 @ opt_list m6 @ rest))"
  using get_top_player_None[of df col lbl suffix] get_top_player_no_eligible[of col df lbl suffix]
    get_top_player_Some[of df col lbl suffix e] top_win_rate_None[of df]
    top_win_rate_Some[of df e] leaderboard_first_six[of df lb]
  by blast

theorem C9_top_player_witness:
  "get_top_player players_goals ''Gols'' ''Most goals'' [] =
     Inr (Some \<lparr>name = StrV ''B'', val = Plain (IntV 9) [], label = ''Most goals''\<rparr>) \<and>
   map (\<lambda>r. (col_val r ''Jugador'', col_val r ''Gols'')) (rows players_goals) =
     [(StrV ''A'', IntV 5), (StrV ''B'', IntV 9), (StrV ''C'', Null)] \<and>
   (\<exists>t. t \<in> set (rows players_goals) \<and> col_val t ''Jugador'' = StrV ''B'' \<and>
        col_val t ''Gols'' = IntV 9 \<and> eligible ''Gols'' t \<and>
        list_all (\<lambda>r. \<not> eligible ''Gols'' r \<or> cell_le (col_val r ''Gols'') (col_val t ''Gols''))
          (rows players_goals)) \<and>
   (\<exists>lb. leaderboard players_frame = Inr lb \<and>
      map (\<lambda>e. (name e, val e)) (take 6 lb) =
        [(StrV ''A'', Plain (IntV 5) []),
         (StrV ''A'', Plain (FloatV (Fin 1.25)) []),
         (StrV ''A'', Plain (IntV 1) []),
         (StrV ''A'', Plain (FloatV (Fin 0.25)) []),
         (StrV ''C'', Plain (IntV 90) [CHR 0x27]),
         (StrV ''C'', Percent (FloatV (Fin 0.75)))])"
proof -
  let ?e = "\<lparr>name = StrV ''B'', val = Plain (IntV 9) [], label = ''Most goals''\<rparr>"
  have g: "get_top_player players_goals ''Gols'' ''Most goals'' [] = Inr (Some ?e)"
    by (rule top_goals)
  from C9_top_player[of players_goals "''Gols''" "''Most goals''" "[]" ?e "[]"] g
  have "\<exists>t\<in>set (rows players_goals). eligible ''Gols'' t \<and> name ?e = col_val t ''Jugador'' \<and>
         val ?e = Plain (col_val t ''Gols'') [] \<and> label ?e = ''Most goals'' \<and>
         (\<forall>r\<in>set (rows players_goals). eligible ''Gols'' r \<longrightarrow>
            cell_le (col_val r ''Gols'') (col_val t ''Gols''))"
    by blast
  then obtain t where t: "t \<in> set (rows players_goals)" "eligible ''Gols'' t"
    "StrV ''B'' = col_val t ''Jugador''" "IntV 9 = col_val t ''Gols''"
    "\<forall>r\<in>set (rows players_goals). eligible ''Gols'' r \<longrightarrow> cell_le (col_val r ''Gols'') (col_val t ''Gols'')"
    by auto
  then have "t \<in> set (rows players_goals) \<and> col_val t ''Jugador'' = StrV ''B'' \<and>
        col_val t ''Gols'' = IntV 9 \<and> eligible ''Gols'' t \<and>
        list_all (\<lambda>r. \<not> eligible ''Gols'' r \<or> cell_le (col_val r ''Gols'') (col_val t ''Gols''))
          (rows players_goals)"
    by (auto simp: list_all_iff)
  then have ex: "\<exists>t. t \<in> set (rows players_goals) \<and> col_val t ''Jugador'' = StrV ''B'' \<and>
        col_val t ''Gols'' = IntV 9 \<and> eligible ''Gols'' t \<and>
        list_all (\<lambda>r. \<not> eligible ''Gols'' r \<or> cell_le (col_val r ''Gols'') (col_val t ''Gols''))
          (rows players_goals)" by blast
  have rows: "map (\<lambda>r. (col_val r ''Jugador'', col_val r ''Gols'')) (rows players_goals) =
     [(StrV ''A'', IntV 5), (StrV ''B'', IntV 9), (StrV ''C'', Null)]"
    by (simp add: players_goals_def col_val_def)
  have lb: "\<exists>lb. leaderboard players_frame = Inr lb \<and>
      map (\<lambda>e. (name e, val e)) (take 6 lb) =
        [(StrV ''A'', Plain (IntV 5) []),
         (StrV ''A'', Plain (FloatV (Fin 1.25)) []),
         (StrV ''A'', Plain (IntV 1) []),
         (StrV ''A'', Plain (FloatV (Fin 0.25)) []),
         (StrV ''C'', Plain (IntV 90) [CHR 0x27]),
         (StrV ''C'', Percent (FloatV (Fin 0.75)))]"
    by (simp add: leaderboard_def players_frame_def top_defs top_win_rate_def
      with_grogues_ratio_def set_column_def map_col_def grogues_ratio_def shown_def opt_list_def
      Assistencies_def Assitencies_x_partit_def Minuts_sense_gols_def)
  from g rows ex lb show ?thesis by blast
qed

text \<open>
  Claim C3 holds that the yellow-card ratio is the quotient of the two cells and 0 where
  the division is undefined. The ratio is a function of the two cells and is 0, 0.5 and 0
  on the three examples of the specification. With yellow cards but no match played the
  quotient is infinite, \<^verbatim>\<open>fill_nan\<close> leaves it, and the leaderboard shows it as the
  greatest ratio; with null matches played the ratio is null.
\<close>

theorem C3_ratio_division_by_zero:
  "grogues_ratio (IntV 0) (IntV 0) = FloatV (Fin 0) \<and>
   grogues_ratio (IntV 2) (IntV 4) = FloatV (Fin 0.5) \<and>
   grogues_ratio (IntV 0) (IntV 5) = FloatV (Fin 0) \<and>
   grogues_ratio (IntV 2) (IntV 0) = FloatV PInf \<and>
   grogues_ratio (IntV 2) Null = Null \<and>
   (\<exists>lb. leaderboard players_frame = Inr lb \<and>
      map (\<lambda>e. (name e, val e)) (drop 6 lb) = [(StrV ''B'', Fixed2 (FloatV PInf))])"
proof -
  have "\<exists>lb. leaderboard players_frame = Inr lb \<and>
      map (\<lambda>e. (name e, val e)) (drop 6 lb) = [(StrV ''B'', Fixed2 (FloatV PInf))]"
    by (simp add: leaderboard_def players_frame_def top_defs top_win_rate_def
      with_grogues_ratio_def set_column_def map_col_def grogues_ratio_def shown_def opt_list_def
      Assistencies_def Assitencies_x_partit_def Minuts_sense_gols_def)
  then show ?thesis
    by (simp add: ratio_values)
qed

section \<open>Tables that cannot be read\<close>

lemma calculate_stats_empty: "calculate_stats empty_frame = Inl (ColumnNotFoundError ''Resultat'')"
  by (simp add: calculate_stats_def filter_eq_str_def empty_frame_def bindE_def)

lemma load_data_weeks_missing:
  "fst (snd (load_data csv_players None)) = empty_frame"
  by (simp add: load_data_def load_none round_df_empty split: sum.splits)

lemma main_weeks_missing: "main csv_players None = Inl (ColumnNotFoundError ''Resultat'')"
proof -
  obtain p w l where ld: "load_data csv_players None = (p, w, l)"
    by (cases "load_data csv_players None") auto
  with load_data_weeks_missing[of csv_players] have "w = empty_frame" by simp
  with ld show ?thesis
    by (simp add: main_def calculate_stats_empty bindE_def)
qed

lemma load_weeks_csv:
  "load_weeks (Some weeks_csv) = Inr (weeks_scenario ''B'' ''A'')"
  by (simp add: load_weeks_def weeks_csv_def read_csv_def parse_cell_def null_values_def bindE_def
      parse_defs filter_not_null_def columns_def col_val_def weeks_scenario_def weeks_schema_def
      week_row_def names_defs)

lemma round_df_weeks: "round_df (weeks_scenario ''B'' ''A'') = weeks_scenario ''B'' ''A''"
  by (simp add: round_df_def weeks_scenario_def weeks_schema_def week_row_def names_defs)

lemma main_players_missing: "main None (Some weeks_csv) = Inl (ColumnNotFoundError ''Jugador'')"
proof -
  have ld: "load_data None (Some weeks_csv) =
      (empty_frame, weeks_scenario ''B'' ''A'',
       [Error_loading_players FileNotFoundError, Loaded_weeks 2])"
    by (simp add: load_data_def load_none load_weeks_csv round_df_empty round_df_weeks)
       (simp add: height_def weeks_scenario_def)
  have st: "\<exists>st. calculate_stats (weeks_scenario ''B'' ''A'') = Inr st"
    using calculate_stats_ok[OF weeks_ok_scenario] by blast
  have "render_pages empty_frame w st = Inl (ColumnNotFoundError ''Jugador'')" for w st
    by (simp add: render_pages_def filter_is_in_def empty_frame_def bindE_def Let_def)
  with ld st show ?thesis
    by (auto simp: main_def bindE_def)
qed

text \<open>
  Claim C1 holds that after a table could not be read every later stage runs to completion
  on the empty record set. The loader does catch the failure, print it and go on with
  \<^verbatim>\<open>pl.DataFrame()\<close>; that frame has no columns. With the match file missing
  \<^verbatim>\<open>calculate_stats\<close> raises at its first filter, whatever the players file; with only
  the players file missing \<^verbatim>\<open>render_pages\<close> raises at the goalkeeper filter. Nothing
  catches either exception.
\<close>

theorem C1_missing_table_raises:
  "load_data None None =
     (empty_frame, empty_frame,
      [Error_loading_players FileNotFoundError, Error_loading_weeks FileNotFoundError]) \<and>
   calculate_stats empty_frame = Inl (ColumnNotFoundError ''Resultat'') \<and>
   main csv_players None = Inl (ColumnNotFoundError ''Resultat'') \<and>
   main None (Some weeks_csv) = Inl (ColumnNotFoundError ''Jugador'')"
  by (simp add: main_weeks_missing main_players_missing calculate_stats_empty
      load_data_def load_none round_df_empty)

end
